theory Spec2Isabelle
  imports Complex_Main "HOL-Library.Sublist" "HOL-Library.AList"
begin

section \<open>JavaScript strings\<close>

text \<open>
  Text is a list of 8-bit characters, the code units U+0000 to U+00FF of a JavaScript
  string. The classes \<open>[a-z]\<close>, \<open>[A-Z]\<close>, \<open>\d\<close> and \<open>\w\<close> of a pattern are ASCII.
  \<open>toLowerCase\<close> and the flag \<open>i\<close> also fold the capital letters U+00C0 to U+00DE (the
  multiplication sign U+00D7 apart) onto U+00E0 to U+00FE, so that \<open>N\<close> with a tilde becomes
  \<open>n\<close> with a tilde.
\<close>

definition upper_chars :: string where
  "upper_chars = ''ABCDEFGHIJKLMNOPQRSTUVWXYZ''"

definition lower_chars :: string where
  "lower_chars = ''abcdefghijklmnopqrstuvwxyz''"

definition digit_chars :: string where
  "digit_chars = ''0123456789''"

definition is_lower :: "char \<Rightarrow> bool" where
  "is_lower c = (c \<in> set lower_chars)"

definition is_upper :: "char \<Rightarrow> bool" where
  "is_upper c = (c \<in> set upper_chars)"

definition is_digit :: "char \<Rightarrow> bool" where
  "is_digit c = (c \<in> set digit_chars)"

definition latin1_upper_chars :: string where
  "latin1_upper_chars =
     [CHR 0xC0, CHR 0xC1, CHR 0xC2, CHR 0xC3, CHR 0xC4, CHR 0xC5, CHR 0xC6, CHR 0xC7,
      CHR 0xC8, CHR 0xC9, CHR 0xCA, CHR 0xCB, CHR 0xCC, CHR 0xCD, CHR 0xCE, CHR 0xCF,
      CHR 0xD0, CHR 0xD1, CHR 0xD2, CHR 0xD3, CHR 0xD4, CHR 0xD5, CHR 0xD6,
      CHR 0xD8, CHR 0xD9, CHR 0xDA, CHR 0xDB, CHR 0xDC, CHR 0xDD, CHR 0xDE]"

definition latin1_lower_chars :: string where
  "latin1_lower_chars =
     [CHR 0xE0, CHR 0xE1, CHR 0xE2, CHR 0xE3, CHR 0xE4, CHR 0xE5, CHR 0xE6, CHR 0xE7,
      CHR 0xE8, CHR 0xE9, CHR 0xEA, CHR 0xEB, CHR 0xEC, CHR 0xED, CHR 0xEE, CHR 0xEF,
      CHR 0xF0, CHR 0xF1, CHR 0xF2, CHR 0xF3, CHR 0xF4, CHR 0xF5, CHR 0xF6,
      CHR 0xF8, CHR 0xF9, CHR 0xFA, CHR 0xFB, CHR 0xFC, CHR 0xFD, CHR 0xFE]"

text \<open>The class \<open>\s\<close> of a regular expression, which is also what \<open>trim\<close> removes: tab, line
  feed, vertical tab, form feed, carriage return, space and the no-break space U+00A0.\<close>

definition is_space :: "char \<Rightarrow> bool" where
  "is_space c =
     (c \<in> set [CHR 0x09, CHR 0x0A, CHR 0x0B, CHR 0x0C, CHR 0x0D, CHR '' '', CHR 0xA0])"

text \<open>The characters that \<open>.\<close> does not match.\<close>

definition is_line_terminator :: "char \<Rightarrow> bool" where
  "is_line_terminator c = (c = CHR 0x0A \<or> c = CHR 0x0D)"

definition toLowerChar :: "char \<Rightarrow> char" where
  "toLowerChar c =
     (case map_of (zip (upper_chars @ latin1_upper_chars) (lower_chars @ latin1_lower_chars)) c of
        None \<Rightarrow> c
      | Some d \<Rightarrow> d)"

definition toLowerCase :: "string \<Rightarrow> string" where
  "toLowerCase s = map toLowerChar s"

definition trim :: "string \<Rightarrow> string" where
  "trim s = rev (dropWhile is_space (rev (dropWhile is_space s)))"

text \<open>\<open>text.includes(sub)\<close>: \<open>sub\<close> occurs in \<open>text\<close> as a contiguous run.\<close>

fun js_includes :: "string \<Rightarrow> string \<Rightarrow> bool" where
  "js_includes [] sub = (sub = [])"
| "js_includes (c # cs) sub = (prefix sub (c # cs) \<or> js_includes cs sub)"

section \<open>The hierarchical location index\<close>

subsection \<open>normalizeKey\<close>

text \<open>
  \<open>.replace(/\s*\(.*?\)\s*/g, '')\<close>. A match at a position is a run of white space, an
  opening parenthesis, the shortest run of characters other than line terminators up to a
  closing parenthesis, and all the white space after it. \<open>close_paren\<close> returns what follows
  the first closing parenthesis, \<open>paren_note\<close> what follows a whole match starting here.
\<close>

fun close_paren :: "string \<Rightarrow> string option" where
  "close_paren [] = None"
| "close_paren (c # cs) =
     (if c = CHR '')'' then Some cs
      else if is_line_terminator c then None
      else close_paren cs)"

definition paren_note :: "string \<Rightarrow> string option" where
  "paren_note s =
     (case dropWhile is_space s of
        [] \<Rightarrow> None
      | c # cs \<Rightarrow>
          if c = CHR ''('' then
            (case close_paren cs of
               None \<Rightarrow> None
             | Some rest \<Rightarrow> Some (dropWhile is_space rest))
          else None)"

function strip_parens :: "string \<Rightarrow> string" where
  "strip_parens [] = []"
| "strip_parens (c # cs) =
     (case paren_note (c # cs) of
        Some rest \<Rightarrow> strip_parens rest
      | None \<Rightarrow> c # strip_parens cs)"
  by pat_completeness auto
termination
proof (relation "measure length")
  show "wf (measure length)" by simp
next
  fix c :: char and cs rest :: string
  assume a: "paren_note (c # cs) = Some rest"
  have cl: "length r \<le> length t" if "close_paren t = Some r" for t r
    using that by (induction t) (auto split: if_splits)
  have dw: "length (dropWhile is_space t) \<le> length t" for t
    by (simp add: length_dropWhile_le)
  from a obtain d ds r where d: "dropWhile is_space (c # cs) = d # ds"
      and r: "close_paren ds = Some r" and rest: "rest = dropWhile is_space r"
    by (auto simp: paren_note_def split: list.splits if_splits option.splits)
  have "length rest \<le> length r" using rest dw by simp
  also have "\<dots> \<le> length ds" using cl[OF r] .
  also have "\<dots> < length (d # ds)" by simp
  also have "\<dots> \<le> length (c # cs)" using dw[of "c # cs"] d by simp
  finally show "(rest, c # cs) \<in> measure length" by simp
next
  fix c :: char and cs :: string
  show "(cs, c # cs) \<in> measure length" by simp
qed

text \<open>\<open>.replace(/^brgy\.?\s*/i, '')\<close> and \<open>.replace(/^barangay\s*/i, '')\<close>; the flag
  \<open>i\<close> compares letters without regard to case.\<close>

definition strip_brgy :: "string \<Rightarrow> string" where
  "strip_brgy s =
     (if prefix ''brgy'' (toLowerCase s) then
        (let r = drop 4 s;
             r' = (case r of [] \<Rightarrow> [] | c # cs \<Rightarrow> if c = CHR ''.'' then cs else c # cs)
         in dropWhile is_space r')
      else s)"

definition strip_barangay :: "string \<Rightarrow> string" where
  "strip_barangay s =
     (if prefix ''barangay'' (toLowerCase s) then dropWhile is_space (drop 8 s) else s)"

text \<open>\<open>.replace(/\s+city$/i, '')\<close>: the text ends in \<open>city\<close> (in any case) preceded by
  white space; the leftmost match takes the whole run of white space.\<close>

definition strip_city_suffix :: "string \<Rightarrow> string" where
  "strip_city_suffix s =
     (if suffix ''city'' (toLowerCase s) \<and> length s > 4 \<and> is_space (s ! (length s - 5))
      then rev (dropWhile is_space (drop 4 (rev s)))
      else s)"

text \<open>\<open>.replace(/[^a-z0-9\s]/g, ' ')\<close> and \<open>.replace(/\s+/g, ' ')\<close>.\<close>

definition special_to_space :: "string \<Rightarrow> string" where
  "special_to_space s =
     map (\<lambda>c. if is_lower c \<or> is_digit c \<or> is_space c then c else CHR '' '') s"

function collapse_spaces :: "string \<Rightarrow> string" where
  "collapse_spaces [] = []"
| "collapse_spaces (c # cs) =
     (if is_space c then CHR '' '' # collapse_spaces (dropWhile is_space cs)
      else c # collapse_spaces cs)"
  by pat_completeness auto
termination
  by (relation "measure length") (auto simp: length_dropWhile_le less_Suc_eq_le)

text \<open>\<open>normalizeKey(text)\<close>. The guard \<open>if (!text) return ''\<close> is the first branch.\<close>

definition normalizeKey :: "string \<Rightarrow> string" where
  "normalizeKey text =
     (if text = [] then []
      else trim (collapse_spaces (special_to_space (strip_city_suffix
             (strip_barangay (strip_brgy (strip_parens (toLowerCase text))))))))"

subsection \<open>Rows and tables\<close>

text \<open>
  The rows that \<open>buildIndexes\<close> stores. A province row is
  \<open>{province, region, regionCode, cities}\<close>, a city row
  \<open>{city, province, region, regionCode, barangays}\<close> and a barangay row
  \<open>{barangay, city, province, region, regionCode}\<close>.
\<close>

record admin_base =
  region :: string
  province :: string
  regionCode :: string

record province_row = admin_base +
  cities :: "string list"

record city_base = admin_base +
  city :: string

record city_row = city_base +
  barangays :: "string list"

record barangay_row = city_base +
  barangay :: string

text \<open>
  The tables are plain objects \<open>{}\<close> read with \<open>table[key]\<close>, kept here as association
  lists in insertion order. Every key is a result of \<open>normalizeKey\<close>, so it is made of
  lower-case letters, digits and spaces; the only property of \<open>Object.prototype\<close> with
  such a name is \<open>constructor\<close>. Reading it from a table that has no such key of its own
  gives the function \<open>Object\<close>, which is truthy, has \<open>length\<close> 1 and no element 0.
\<close>

datatype 'a js_prop = Own 'a | Proto | Absent

definition js_get :: "(string \<times> 'a) list \<Rightarrow> string \<Rightarrow> 'a js_prop" where
  "js_get obj k =
     (case map_of obj k of
        Some v \<Rightarrow> Own v
      | None \<Rightarrow> if k = ''constructor'' then Proto else Absent)"

text \<open>The text of \<open>String(Object)\<close>, which \<open>includes\<close> receives when its argument is the
  inherited \<open>constructor\<close>.\<close>

definition object_function_text :: string where
  "object_function_text = ''function Object() { [native code] }''"

record location_index =
  barangayIndex :: "(string \<times> barangay_row list) list"
  cityIndex :: "(string \<times> city_row list) list"
  provinceIndex :: "(string \<times> province_row) list"
  ambiguousBarangays :: "string list"
  ambiguousCities :: "string list"

text \<open>An optional argument is absent (\<open>null\<close>) or a string; \<open>if (arg)\<close> holds for a
  string that is not empty.\<close>

fun js_truthy :: "string option \<Rightarrow> bool" where
  "js_truthy None = False"
| "js_truthy (Some s) = (s \<noteq> [])"

subsection \<open>Lookups\<close>

definition isAmbiguousBarangay :: "location_index \<Rightarrow> string \<Rightarrow> bool" where
  "isAmbiguousBarangay idx barangayName =
     (normalizeKey barangayName \<in> set (ambiguousBarangays idx))"

definition isAmbiguousCity :: "location_index \<Rightarrow> string \<Rightarrow> bool" where
  "isAmbiguousCity idx cityName =
     (normalizeKey cityName \<in> set (ambiguousCities idx))"

text \<open>The two predicates that \<open>findBarangay\<close> hands to \<open>matches.find\<close>.\<close>

definition city_hint_match :: "string \<Rightarrow> barangay_row \<Rightarrow> bool" where
  "city_hint_match cityKey m =
     (normalizeKey (city m) = cityKey
      \<or> js_includes (normalizeKey (city m)) cityKey
      \<or> js_includes cityKey (normalizeKey (city m)))"

definition province_hint_match :: "string \<Rightarrow> ('a city_base_scheme) \<Rightarrow> bool" where
  "province_hint_match provinceKey m =
     (normalizeKey (province m) = provinceKey
      \<or> js_includes (normalizeKey (province m)) provinceKey)"

text \<open>\<open>findBarangay(barangayName, cityContext = null, provinceContext = null)\<close>. The result
  \<open>None\<close> stands for \<open>null\<close> and for the \<open>undefined\<close> that \<open>matches[0]\<close> gives on the
  inherited \<open>constructor\<close>; the callers only test the result for truth.\<close>

definition findBarangay ::
  "location_index \<Rightarrow> string \<Rightarrow> string option \<Rightarrow> string option \<Rightarrow> barangay_row option" where
  "findBarangay idx barangayName cityContext provinceContext =
     (let barangayKey = normalizeKey barangayName in
      case js_get (barangayIndex idx) barangayKey of
        Absent \<Rightarrow> None
      | Proto \<Rightarrow> None
      | Own matches \<Rightarrow>
          if matches = [] then None
          else if length matches = 1 then Some (hd matches)
          else
            (case (if js_truthy cityContext
                   then find (city_hint_match (normalizeKey (the cityContext))) matches
                   else None) of
               Some m \<Rightarrow> Some m
             | None \<Rightarrow>
                 (if js_truthy provinceContext
                  then find (province_hint_match (normalizeKey (the provinceContext))) matches
                  else None)))"

text \<open>The table \<open>priorityCities\<close> of \<open>findCity\<close>.\<close>

definition priorityCities :: "(string \<times> string) list" where
  "priorityCities =
     [(''bacolod'', ''NEGROS OCCIDENTAL''),
      (''san juan'', ''NATIONAL CAPITAL REGION''),
      (''taguig'', ''TAGUIG - PATEROS''),
      (''makati'', ''NATIONAL CAPITAL REGION''),
      (''quezon'', ''NATIONAL CAPITAL REGION'')]"

text \<open>\<open>if (priorityCities[cityKey]) { const match = matches.find(m =>
  m.province.includes(priorityCities[cityKey])); ... }\<close>: the row that the priority table
  selects, if any.\<close>

definition priority_match :: "string \<Rightarrow> city_row list \<Rightarrow> city_row option" where
  "priority_match cityKey matches =
     (case js_get priorityCities cityKey of
        Own p \<Rightarrow> find (\<lambda>m. js_includes (province m) p) matches
      | Proto \<Rightarrow> find (\<lambda>m. js_includes (province m) object_function_text) matches
      | Absent \<Rightarrow> None)"

text \<open>\<open>!matches\<close> on what a table read gave: only a missing key is falsy.\<close>

fun js_missing :: "'a js_prop \<Rightarrow> bool" where
  "js_missing Absent = True"
| "js_missing _ = False"

definition findCity :: "location_index \<Rightarrow> string \<Rightarrow> string option \<Rightarrow> city_row option" where
  "findCity idx cityName provinceContext =
     (let cityKey = normalizeKey cityName;
          hasCity = js_includes (toLowerCase cityName) ''city'';
          m0 = js_get (cityIndex idx) cityKey;
          m1 = (if js_missing m0 \<and> \<not> hasCity
                then js_get (cityIndex idx) (normalizeKey (cityName @ '' City''))
                else m0);
          m2 = (if js_missing m1 \<and> hasCity
                then js_get (cityIndex idx) (normalizeKey (strip_city_suffix cityName))
                else m1)
      in case m2 of
           Absent \<Rightarrow> None
         | Proto \<Rightarrow> None
         | Own matches \<Rightarrow>
             if matches = [] then None
             else if length matches = 1 then Some (hd matches)
             else
               (case (if js_truthy provinceContext
                      then find (province_hint_match (normalizeKey (the provinceContext))) matches
                      else None) of
                  Some m \<Rightarrow> Some m
                | None \<Rightarrow>
                    (case priority_match cityKey matches of
                       Some m \<Rightarrow> Some m
                     | None \<Rightarrow> Some (hd matches))))"

text \<open>\<open>findProvince\<close> returns \<open>this.provinceIndex[provinceKey] || null\<close>: a row, the
  inherited \<open>constructor\<close> (truthy, with no field of a row), or \<open>null\<close>.\<close>

definition findProvince :: "location_index \<Rightarrow> string \<Rightarrow> province_row js_prop" where
  "findProvince idx provinceName = js_get (provinceIndex idx) (normalizeKey provinceName)"

subsection \<open>buildIndexes\<close>


datatype error = TypeError









subsection \<open>addCityAliases\<close>

text \<open>\<open>Object.entries\<close> of a plain object lists the keys that are array indices (canonical
  decimal numerals below \<open>2^32 - 1\<close>) in ascending order, then the other keys in the
  order of their insertion.\<close>

definition digits_value :: "string \<Rightarrow> nat" where
  "digits_value k = foldl (\<lambda>n c. 10 * n + (of_char c - of_char CHR ''0'')) 0 k"












subsection \<open>A small dataset\<close>


definition sample_city :: "string \<Rightarrow> string \<Rightarrow> string \<Rightarrow> string \<Rightarrow> string list \<Rightarrow> city_row" where
  "sample_city rc rn p c bs =
     \<lparr>region = rn, province = p, regionCode = rc, city = c, barangays = bs\<rparr>"

definition sample_barangay :: "string \<Rightarrow> string \<Rightarrow> string \<Rightarrow> string \<Rightarrow> string \<Rightarrow> barangay_row" where
  "sample_barangay rc rn p c b =
     \<lparr>region = rn, province = p, regionCode = rc, city = c, barangay = b\<rparr>"

definition sample_index :: location_index where
  "sample_index =
     \<lparr>barangayIndex =
        [(''poblacion'',
            [sample_barangay ''07'' ''REGION VII'' ''CEBU'' ''CONSOLACION'' ''POBLACION'',
             sample_barangay ''07'' ''REGION VII'' ''CEBU'' ''SAN FERNANDO'' ''POBLACION'',
             sample_barangay ''07'' ''REGION VII'' ''BOHOL'' ''SAN ISIDRO'' ''POBLACION'']),
         (''tayud'',
            [sample_barangay ''07'' ''REGION VII'' ''CEBU'' ''CONSOLACION'' ''TAYUD'']),
         (''crossing'',
            [sample_barangay ''08'' ''REGION VIII'' ''LEYTE'' ''SAN ISIDRO'' ''CROSSING''])],
      cityIndex =
        [(''consolacion'',
            [sample_city ''07'' ''REGION VII'' ''CEBU'' ''CONSOLACION'' [''POBLACION'', ''TAYUD'']]),
         (''san fernando'',
            [sample_city ''07'' ''REGION VII'' ''CEBU'' ''SAN FERNANDO'' [''POBLACION'']]),
         (''san isidro'',
            [sample_city ''07'' ''REGION VII'' ''BOHOL'' ''SAN ISIDRO'' [''POBLACION''],
             sample_city ''08'' ''REGION VIII'' ''LEYTE'' ''SAN ISIDRO'' [''CROSSING'']])],
      provinceIndex =
        [(''cebu'', \<lparr>region = ''REGION VII'', province = ''CEBU'', regionCode = ''07'',
                     cities = [''CONSOLACION'', ''SAN FERNANDO'']\<rparr>),
         (''bohol'', \<lparr>region = ''REGION VII'', province = ''BOHOL'', regionCode = ''07'',
                      cities = [''SAN ISIDRO'']\<rparr>),
         (''leyte'', \<lparr>region = ''REGION VIII'', province = ''LEYTE'', regionCode = ''08'',
                      cities = [''SAN ISIDRO'']\<rparr>)],
      ambiguousBarangays = [''poblacion''],
      ambiguousCities = [''san isidro'']\<rparr>"

section \<open>Regular expressions\<close>

text \<open>
  The patterns of the parsers are written in a small language of backtracking matchers.
  A matcher state is the character before the current position (none at the start of the
  text) and the rest of the text. \<open>rx_run\<close> lists the states in which a match of the
  pattern can end, in the order in which backtracking tries them: the left alternative
  before the right one, a greedy star with more iterations first, a lazy star with fewer.
  As in JavaScript an iteration of a star that consumes nothing is not taken.
\<close>

datatype rx =
    Lit "char \<Rightarrow> bool"
  | Eps
  | Seq rx rx
  | Alt rx rx
  | Star rx
  | LazyStar rx
  | Bol
  | Eol
  | WordB

type_synonym rx_state = "char option \<times> string"

primrec star_iter :: "nat \<Rightarrow> (rx_state \<Rightarrow> rx_state list) \<Rightarrow> rx_state \<Rightarrow> rx_state list" where
  "star_iter 0 f st = [st]"
| "star_iter (Suc n) f st =
     concat (map (\<lambda>st'. if length (snd st') < length (snd st) then star_iter n f st' else [])
                 (f st)) @ [st]"

primrec lazy_iter :: "nat \<Rightarrow> (rx_state \<Rightarrow> rx_state list) \<Rightarrow> rx_state \<Rightarrow> rx_state list" where
  "lazy_iter 0 f st = [st]"
| "lazy_iter (Suc n) f st =
     st # concat (map (\<lambda>st'. if length (snd st') < length (snd st) then lazy_iter n f st' else [])
                      (f st))"

definition is_word :: "char \<Rightarrow> bool" where
  "is_word c = (is_lower c \<or> is_upper c \<or> is_digit c \<or> c = CHR ''_'')"

fun word_before :: "char option \<Rightarrow> bool" where
  "word_before None = False"
| "word_before (Some c) = is_word c"

fun word_after :: "string \<Rightarrow> bool" where
  "word_after [] = False"
| "word_after (c # cs) = is_word c"

fun rx_run :: "rx \<Rightarrow> rx_state \<Rightarrow> rx_state list" where
  "rx_run (Lit p) (prev, []) = []"
| "rx_run (Lit p) (prev, c # cs) = (if p c then [(Some c, cs)] else [])"
| "rx_run Eps st = [st]"
| "rx_run (Seq a b) st = concat (map (rx_run b) (rx_run a st))"
| "rx_run (Alt a b) st = rx_run a st @ rx_run b st"
| "rx_run (Star a) st = star_iter (length (snd st)) (rx_run a) st"
| "rx_run (LazyStar a) st = lazy_iter (length (snd st)) (rx_run a) st"
| "rx_run Bol (prev, s) = (if prev = None then [(prev, s)] else [])"
| "rx_run Eol (prev, s) = (if s = [] then [(prev, s)] else [])"
| "rx_run WordB (prev, s) = (if word_before prev \<noteq> word_after s then [(prev, s)] else [])"

text \<open>\<open>text.match(pattern)\<close> for a pattern without the flag \<open>g\<close>: the first position at which
  the pattern matches, as \<open>match.index\<close> and \<open>match[0]\<close>. \<open>pattern.test(text)\<close> tells whether
  there is one.\<close>

fun rx_search :: "rx \<Rightarrow> char option \<Rightarrow> string \<Rightarrow> nat \<Rightarrow> (nat \<times> string) option" where
  "rx_search r prev [] i =
     (case rx_run r (prev, []) of [] \<Rightarrow> None | st # _ \<Rightarrow> Some (i, []))"
| "rx_search r prev (c # cs) i =
     (case rx_run r (prev, c # cs) of
        [] \<Rightarrow> rx_search r (Some c) cs (Suc i)
      | st # _ \<Rightarrow> Some (i, take (length (c # cs) - length (snd st)) (c # cs)))"

definition rx_match :: "rx \<Rightarrow> string \<Rightarrow> (nat \<times> string) option" where
  "rx_match r text = rx_search r None text 0"

definition rx_test :: "rx \<Rightarrow> string \<Rightarrow> bool" where
  "rx_test r text = (rx_match r text \<noteq> None)"

text \<open>Notation of the patterns: a character, a character under the flag \<open>i\<close>, a word, an
  alternative of words, the classes \<open>\s\<close>, \<open>\w\<close>, \<open>\d\<close>, \<open>[a-z]\<close> and \<open>.\<close>, and the
  quantifiers \<open>+\<close> and \<open>?\<close>.\<close>

definition chr :: "char \<Rightarrow> rx" where
  "chr c = Lit (\<lambda>x. x = c)"

definition chr_i :: "char \<Rightarrow> rx" where
  "chr_i c = Lit (\<lambda>x. toLowerChar x = toLowerChar c)"

fun seqs :: "rx list \<Rightarrow> rx" where
  "seqs [] = Eps"
| "seqs [r] = r"
| "seqs (r # rs) = Seq r (seqs rs)"

fun alts :: "rx list \<Rightarrow> rx" where
  "alts [] = Lit (\<lambda>x. False)"
| "alts [r] = r"
| "alts (r # rs) = Alt r (alts rs)"

definition str :: "string \<Rightarrow> rx" where
  "str s = seqs (map chr s)"

definition str_i :: "string \<Rightarrow> rx" where
  "str_i s = seqs (map chr_i s)"

definition words_i :: "string list \<Rightarrow> rx" where
  "words_i ws = alts (map str_i ws)"

definition space :: rx where "space = Lit is_space"
definition wordc :: rx where "wordc = Lit is_word"
definition digit :: rx where "digit = Lit is_digit"
definition letter_i :: rx where "letter_i = Lit (\<lambda>c. is_lower c \<or> is_upper c)"
definition dot :: rx where "dot = Lit (\<lambda>c. \<not> is_line_terminator c)"

definition Plus :: "rx \<Rightarrow> rx" where "Plus r = Seq r (Star r)"
definition Opt :: "rx \<Rightarrow> rx" where "Opt r = Alt r Eps"

section \<open>Patterns with groups\<close>

text \<open>
  The patterns whose groups are read, and the patterns that \<open>new RegExp\<close> builds from a
  string, are terms of a second language with capture groups, counted repetitions, back
  references and lookaround. A matcher state is the text before the current position
  (reversed), the text after it and the captures made so far. \<open>re_run\<close> lists the states in
  which a match can end, in the order of backtracking; the first argument is the direction,
  forward everywhere but inside a lookbehind.
\<close>

datatype re =
    Chars "char \<Rightarrow> bool"
  | Empty
  | Cat re re
  | Or re re
  | Repeat nat "nat option" bool re
  | Group nat re
  | Backref bool nat
  | Start
  | End
  | Boundary bool
  | Look bool bool re

type_synonym captures = "(nat \<times> string) list"
type_synonym re_state = "string \<times> string \<times> captures"

fun groups_of :: "re \<Rightarrow> nat list" where
  "groups_of (Cat r s) = groups_of r @ groups_of s"
| "groups_of (Or r s) = groups_of r @ groups_of s"
| "groups_of (Repeat mn mx greedy r) = groups_of r"
| "groups_of (Group n r) = n # groups_of r"
| "groups_of (Look ahead positive r) = groups_of r"
| "groups_of r = []"

definition reset_groups :: "nat list \<Rightarrow> re_state \<Rightarrow> re_state" where
  "reset_groups ns x = (case x of (b, a, k) \<Rightarrow> (b, a, filter (\<lambda>e. fst e \<notin> set ns) k))"

text \<open>
  A repetition of at least \<open>mn\<close> and at most \<open>mx\<close> rounds of the matcher \<open>m\<close>. Once the
  least number is reached, a round that does not move is not taken. The first argument
  bounds the number of rounds; \<open>mn\<close> plus the length of the text plus one is enough, since
  every round lowers \<open>mn\<close> or moves.
\<close>

primrec rep ::
  "nat \<Rightarrow> nat \<Rightarrow> nat option \<Rightarrow> bool \<Rightarrow> (re_state \<Rightarrow> re_state list) \<Rightarrow> re_state \<Rightarrow> re_state list" where
  "rep 0 mn mx greedy m x = (if mn = 0 then [x] else [])"
| "rep (Suc fuel) mn mx greedy m x =
     (if mx = Some 0 then [x]
      else
        (let again = concat (map (\<lambda>y. if mn = 0 \<and> length (fst y) = length (fst x) then []
                                        else rep fuel (mn - 1) (map_option (\<lambda>n. n - 1) mx) greedy m y)
                                  (m x))
         in if mn \<noteq> 0 then again else if greedy then again @ [x] else x # again))"

definition same_text :: "bool \<Rightarrow> string \<Rightarrow> string \<Rightarrow> bool" where
  "same_text ic s t = (if ic then toLowerCase s = toLowerCase t else s = t)"

fun re_run :: "bool \<Rightarrow> re \<Rightarrow> re_state \<Rightarrow> re_state list" where
  "re_run fwd (Chars p) (b, a, k) =
     (if fwd then (case a of [] \<Rightarrow> [] | c # cs \<Rightarrow> if p c then [(c # b, cs, k)] else [])
      else (case b of [] \<Rightarrow> [] | c # cs \<Rightarrow> if p c then [(cs, c # a, k)] else []))"
| "re_run fwd Empty x = [x]"
| "re_run fwd (Cat r s) x =
     (if fwd then concat (map (re_run fwd s) (re_run fwd r x))
      else concat (map (re_run fwd r) (re_run fwd s x)))"
| "re_run fwd (Or r s) x = re_run fwd r x @ re_run fwd s x"
| "re_run fwd (Repeat mn mx greedy r) x =
     rep (mn + length (fst x) + length (fst (snd x)) + 1) mn mx greedy
         (\<lambda>y. re_run fwd r (reset_groups (groups_of r) y)) x"
| "re_run fwd (Group n r) (b, a, k) =
     map (\<lambda>(b', a', k').
            (b', a',
             (n, if fwd then take (length b' - length b) a else take (length b - length b') a')
               # filter (\<lambda>e. fst e \<noteq> n) k'))
         (re_run fwd r (b, a, k))"
| "re_run fwd (Backref ic n) (b, a, k) =
     (case map_of k n of
        None \<Rightarrow> [(b, a, k)]
      | Some s \<Rightarrow>
          if fwd then
            (if same_text ic s (take (length s) a)
               then [(rev (take (length s) a) @ b, drop (length s) a, k)] else [])
          else
            (if same_text ic s (rev (take (length s) b))
               then [(drop (length s) b, rev (take (length s) b) @ a, k)] else []))"
| "re_run fwd Start (b, a, k) = (if b = [] then [(b, a, k)] else [])"
| "re_run fwd End (b, a, k) = (if a = [] then [(b, a, k)] else [])"
| "re_run fwd (Boundary w) (b, a, k) =
     (if (word_after b \<noteq> word_after a) = w then [(b, a, k)] else [])"
| "re_run fwd (Look ahead positive r) (b, a, k) =
     (case re_run ahead r (b, a, k) of
        [] \<Rightarrow> if positive then [] else [(b, a, k)]
      | (b', a', k') # _ \<Rightarrow> if positive then [(b, a, k')] else [])"

text \<open>\<open>text.match(pattern)\<close> and \<open>pattern.exec(text)\<close> for a pattern without the flag \<open>g\<close>:
  \<open>match.index\<close> and the captures, \<open>match[0]\<close> being capture 0.\<close>

fun re_search :: "re \<Rightarrow> string \<Rightarrow> string \<Rightarrow> (nat \<times> captures) option" where
  "re_search r b [] =
     (case re_run True (Group 0 r) (b, [], []) of
        [] \<Rightarrow> None
      | x # _ \<Rightarrow> Some (length b, snd (snd x)))"
| "re_search r b (c # cs) =
     (case re_run True (Group 0 r) (b, c # cs, []) of
        [] \<Rightarrow> re_search r (c # b) cs
      | x # _ \<Rightarrow> Some (length b, snd (snd x)))"

definition re_exec :: "re \<Rightarrow> string \<Rightarrow> (nat \<times> captures) option" where
  "re_exec r text = re_search r [] text"

definition re_test :: "re \<Rightarrow> string \<Rightarrow> bool" where
  "re_test r text = (re_exec r text \<noteq> None)"

subsection \<open>The source of a pattern\<close>

text \<open>
  \<open>new RegExp(source, flags)\<close> reads the source by the grammar of ECMAScript for patterns
  without the flag \<open>u\<close>, with the extensions of its annex B, and throws a \<open>SyntaxError\<close> when
  the source is not a pattern. Of the flags only \<open>i\<close> is modelled.
\<close>

datatype regexp_error = SyntaxError

record pattern_ctx =
  ignoreCase :: bool
  group_names :: "string option list"

definition backslash :: char where
  "backslash = CHR 0x5C"

definition hex_chars :: string where
  "hex_chars = ''0123456789abcdefABCDEF''"

definition is_hex :: "char \<Rightarrow> bool" where
  "is_hex c = (c \<in> set hex_chars)"

definition hex_digit :: "char \<Rightarrow> nat" where
  "hex_digit c =
     (if is_digit c then of_char c - 48 else if is_lower c then of_char c - 87 else of_char c - 55)"

definition hex_value :: "string \<Rightarrow> nat" where
  "hex_value s = foldl (\<lambda>n c. 16 * n + hex_digit c) 0 s"

definition is_octal :: "char \<Rightarrow> bool" where
  "is_octal c = (c \<in> set ''01234567'')"

definition octal_value :: "string \<Rightarrow> nat" where
  "octal_value s = foldl (\<lambda>n c. 8 * n + (of_char c - 48)) 0 s"

text \<open>
  Under the flag \<open>i\<close> two code units are the same when their upper cases are one code
  unit and equal. For an 8-bit character these are its two cases, and moreover U+039C and
  U+03BC for the micro sign U+00B5, and U+0178 for U+00FF.
\<close>

definition toUpperChar :: "char \<Rightarrow> char" where
  "toUpperChar c =
     (case map_of (zip (lower_chars @ latin1_lower_chars) (upper_chars @ latin1_upper_chars)) c of
        None \<Rightarrow> c
      | Some d \<Rightarrow> d)"

definition case_units :: "char \<Rightarrow> nat list" where
  "case_units c =
     [of_char c, of_char (toLowerChar c), of_char (toUpperChar c)]
     @ (if c = CHR 0xB5 then [0x39C, 0x3BC] else [])
     @ (if c = CHR 0xFF then [0x178] else [])"

definition unit_in :: "bool \<Rightarrow> nat \<Rightarrow> nat \<Rightarrow> char \<Rightarrow> bool" where
  "unit_in ic lo hi c =
     (if ic then list_ex (\<lambda>n. lo \<le> n \<and> n \<le> hi) (case_units c)
      else lo \<le> of_char c \<and> of_char c \<le> hi)"

definition unit_re :: "bool \<Rightarrow> nat \<Rightarrow> re" where
  "unit_re ic n = Chars (unit_in ic n n)"

text \<open>The escapes \<open>\d\<close>, \<open>\D\<close>, \<open>\s\<close>, \<open>\S\<close>, \<open>\w\<close> and \<open>\W\<close>.\<close>

definition class_escape :: "char \<Rightarrow> (char \<Rightarrow> bool) option" where
  "class_escape c =
     (if c = CHR ''d'' then Some is_digit
      else if c = CHR ''D'' then Some (\<lambda>x. \<not> is_digit x)
      else if c = CHR ''s'' then Some is_space
      else if c = CHR ''S'' then Some (\<lambda>x. \<not> is_space x)
      else if c = CHR ''w'' then Some is_word
      else if c = CHR ''W'' then Some (\<lambda>x. \<not> is_word x)
      else None)"

text \<open>
  The escapes that stand for one code unit, read after the backslash: the control escapes,
  \<open>\xHH\<close>, \<open>\uHHHH\<close>, an octal escape of up to three digits, and any other character for
  itself. The result is the code unit and the number of characters read.
\<close>

definition character_escape :: "char \<Rightarrow> string \<Rightarrow> nat \<times> nat" where
  "character_escape c cs =
     (if c = CHR ''f'' then (12, 1)
      else if c = CHR ''n'' then (10, 1)
      else if c = CHR ''r'' then (13, 1)
      else if c = CHR ''t'' then (9, 1)
      else if c = CHR ''v'' then (11, 1)
      else if c = CHR ''x'' \<and> length cs \<ge> 2 \<and> list_all is_hex (take 2 cs)
        then (hex_value (take 2 cs), 3)
      else if c = CHR ''u'' \<and> length cs \<ge> 4 \<and> list_all is_hex (take 4 cs)
        then (hex_value (take 4 cs), 5)
      else if is_octal c then
        (let ds = takeWhile is_octal (take (if c \<in> set ''0123'' then 3 else 2) (c # cs))
         in (octal_value ds, length ds))
      else (of_char c, 1))"

subsubsection \<open>Group names\<close>

text \<open>
  A group name is an identifier. Its characters are read over the 8-bit characters: a
  letter, \<open>$\<close> or \<open>_\<close> first, then also digits and the middle dot; an escape \<open>\uHHHH\<close> or
  \<open>\u{H...}\<close> in a name stands for the character it denotes when that is an 8-bit character.
\<close>

definition id_start :: "char \<Rightarrow> bool" where
  "id_start c =
     (is_lower c \<or> is_upper c \<or> c = CHR ''$'' \<or> c = CHR ''_''
      \<or> c \<in> set [CHR 0xAA, CHR 0xB5, CHR 0xBA]
      \<or> (0xC0 \<le> (of_char c :: nat) \<and> c \<noteq> CHR 0xD7 \<and> c \<noteq> CHR 0xF7))"

definition id_part :: "char \<Rightarrow> bool" where
  "id_part c = (id_start c \<or> is_digit c \<or> c = CHR 0xB7)"

definition name_escape :: "string \<Rightarrow> (char \<times> nat) option" where
  "name_escape s =
     (case s of
        [] \<Rightarrow> None
      | c # cs \<Rightarrow>
          if c \<noteq> CHR ''u'' then None
          else if length cs \<ge> 4 \<and> list_all is_hex (take 4 cs) then
            (if hex_value (take 4 cs) < 256 then Some (char_of (hex_value (take 4 cs)), 5) else None)
          else
            (case cs of
               [] \<Rightarrow> None
             | d # ds \<Rightarrow>
                 (let hs = takeWhile is_hex ds in
                  if d = CHR ''{'' \<and> hs \<noteq> [] \<and> take 1 (drop (length hs) ds) = ''}''
                     \<and> hex_value hs < 256
                  then Some (char_of (hex_value hs), length hs + 3)
                  else None)))"

function read_name :: "string \<Rightarrow> string \<Rightarrow> nat \<Rightarrow> (string \<times> nat) option" where
  "read_name [] acc n = None"
| "read_name (c # cs) acc n =
     (if c = CHR ''>'' then Some (rev acc, Suc n)
      else if c = backslash then
        (case name_escape cs of
           None \<Rightarrow> None
         | Some (ch, k) \<Rightarrow> read_name (drop k cs) (ch # acc) (Suc n + k))
      else read_name cs (c # acc) (Suc n))"
  by pat_completeness auto
termination
  by (relation "measure (\<lambda>(s, acc, n). length s)") auto

definition valid_name :: "string \<Rightarrow> bool" where
  "valid_name nm = (nm \<noteq> [] \<and> id_start (hd nm) \<and> list_all id_part (tl nm))"

text \<open>
  The capture groups of a source in the order of their opening parentheses, each with its
  name if it has one. An escaped character and the inside of a class are passed over.
\<close>

definition name_entry :: "string \<Rightarrow> string option" where
  "name_entry s = (case read_name s [] 0 of None \<Rightarrow> Some [] | Some (nm, k) \<Rightarrow> Some nm)"

fun scan_groups :: "bool \<Rightarrow> string \<Rightarrow> string option list" where
  "scan_groups in_class [] = []"
| "scan_groups in_class [c] = (if \<not> in_class \<and> c = CHR ''('' then [None] else [])"
| "scan_groups in_class (c # d # cs) =
     (if c = backslash then scan_groups in_class cs
      else if in_class then scan_groups (c \<noteq> CHR '']'') (d # cs)
      else if c = CHR ''['' then scan_groups True (d # cs)
      else if c = CHR ''('' then
        (if d = CHR ''?'' then
           (if take 1 cs = ''<'' \<and> take 1 (drop 1 cs) \<noteq> ''='' \<and> take 1 (drop 1 cs) \<noteq> ''!''
              then name_entry (drop 1 cs) # scan_groups False cs
            else scan_groups False cs)
         else None # scan_groups False (d # cs))
      else scan_groups False (d # cs))"

fun name_index :: "string \<Rightarrow> string option list \<Rightarrow> nat option" where
  "name_index nm [] = None"
| "name_index nm (e # es) =
     (if e = Some nm then Some 1 else map_option Suc (name_index nm es))"

subsubsection \<open>Classes\<close>

datatype class_item = Unit nat | Units nat nat | Klass "char \<Rightarrow> bool"

definition item_match :: "bool \<Rightarrow> char \<Rightarrow> class_item \<Rightarrow> bool" where
  "item_match ic c item =
     (case item of
        Unit n \<Rightarrow> unit_in ic n n c
      | Units lo hi \<Rightarrow> unit_in ic lo hi c
      | Klass p \<Rightarrow> p c)"

text \<open>One atom of a class, \<open>c\<close> being its first character: the item and the number of
  characters read after \<open>c\<close>.\<close>

definition class_atom :: "pattern_ctx \<Rightarrow> char \<Rightarrow> string \<Rightarrow> regexp_error + (class_item \<times> nat)" where
  "class_atom ctx c cs =
     (if c \<noteq> backslash then Inr (Unit (of_char c), 0)
      else
        (case cs of
           [] \<Rightarrow> Inl SyntaxError
         | d # ds \<Rightarrow>
             if d = CHR ''b'' then Inr (Unit 8, 1)
             else if class_escape d \<noteq> None then Inr (Klass (the (class_escape d)), 1)
             else if d = CHR ''c'' then
               (if ds \<noteq> [] \<and> (is_word (hd ds))
                  then Inr (Unit (of_char (hd ds) mod 32), 2)
                else Inr (Unit (of_char backslash), 0))
             else if d = CHR ''k'' \<and> list_ex (\<lambda>e. e \<noteq> None) (group_names ctx) then Inl SyntaxError
             else Inr (Unit (fst (character_escape d ds)), snd (character_escape d ds))))"

text \<open>The items of a range \<open>x-y\<close>: when an end is a class escape the hyphen stands for
  itself; ends out of order are an error.\<close>

fun range_items :: "class_item \<Rightarrow> class_item \<Rightarrow> regexp_error + class_item list" where
  "range_items (Unit lo) (Unit hi) = (if hi < lo then Inl SyntaxError else Inr [Units lo hi])"
| "range_items x y = Inr [y, Unit (of_char CHR ''-''), x]"

function class_items ::
  "pattern_ctx \<Rightarrow> string \<Rightarrow> nat \<Rightarrow> class_item list \<Rightarrow> regexp_error + (class_item list \<times> nat)" where
  "class_items ctx [] n acc = Inl SyntaxError"
| "class_items ctx (c # cs) n acc =
     (if c = CHR '']'' then Inr (rev acc, Suc n)
      else
        (case class_atom ctx c cs of
           Inl e \<Rightarrow> Inl e
         | Inr (atom1, k) \<Rightarrow>
             (case drop k cs of
                [] \<Rightarrow> Inl SyntaxError
              | d # ds \<Rightarrow>
                  if d = CHR ''-'' \<and> ds \<noteq> [] \<and> hd ds \<noteq> CHR '']'' then
                    (case class_atom ctx (hd ds) (tl ds) of
                       Inl e \<Rightarrow> Inl e
                     | Inr (atom2, j) \<Rightarrow>
                         (case range_items atom1 atom2 of
                            Inl e \<Rightarrow> Inl e
                          | Inr items \<Rightarrow>
                              class_items ctx (drop j (tl ds)) (n + k + j + 3) (items @ acc)))
                  else class_items ctx (d # ds) (Suc n + k) (atom1 # acc))))"
  by pat_completeness auto
termination
proof (relation "measure (\<lambda>(ctx, s, n, acc). length s)", goal_cases)
  case 1
  show ?case by simp
next
  case (2 ctx c cs n acc x atom1 k d ds y atom2 j items)
  have "length (drop k cs) \<le> length cs" by simp
  then have "length ds < length cs" unfolding 2(4) by simp
  moreover have "length (drop j (tl ds)) \<le> length ds" by simp
  ultimately show ?case by simp
next
  case (3 ctx c cs n acc x atom1 k d ds)
  have "length (drop k cs) \<le> length cs" by simp
  then have "length ds < length cs" unfolding 3(4) by simp
  then show ?case by simp
qed

subsubsection \<open>Terms\<close>

datatype group_kind = Capture | NonCapture | Lookaround bool bool

datatype token =
    Term re bool
  | Quantifier nat "nat option" bool
  | Open group_kind
  | Close
  | Bar

text \<open>A quantifier in braces, read after the opening brace: the bounds and the number of
  characters read.\<close>

definition braces :: "string \<Rightarrow> (nat \<times> nat option \<times> nat) option" where
  "braces s =
     (let ds = takeWhile is_digit s; r = drop (length ds) s in
      if ds = [] then None
      else if take 1 r = ''}'' then Some (digits_value ds, Some (digits_value ds), length ds + 1)
      else if take 2 r = '',}'' then Some (digits_value ds, None, length ds + 2)
      else if take 1 r = '','' then
        (let es = takeWhile is_digit (drop 1 r) in
         if es \<noteq> [] \<and> take 1 (drop (length es + 1) r) = ''}''
           then Some (digits_value ds, Some (digits_value es), length ds + length es + 2)
         else None)
      else None)"

definition quantifier :: "nat \<Rightarrow> nat option \<Rightarrow> nat \<Rightarrow> string \<Rightarrow> regexp_error + (token \<times> nat)" where
  "quantifier mn mx k cs =
     (if take 1 (drop k cs) = ''?'' then Inr (Quantifier mn mx False, Suc k)
      else Inr (Quantifier mn mx True, k))"

definition open_group :: "string \<Rightarrow> regexp_error + (token \<times> nat)" where
  "open_group cs =
     (if take 1 cs \<noteq> ''?'' then Inr (Open Capture, 0)
      else if take 2 cs = ''?:'' then Inr (Open NonCapture, 2)
      else if take 2 cs = ''?='' then Inr (Open (Lookaround True True), 2)
      else if take 2 cs = ''?!'' then Inr (Open (Lookaround True False), 2)
      else if take 3 cs = ''?<='' then Inr (Open (Lookaround False True), 3)
      else if take 3 cs = ''?<!'' then Inr (Open (Lookaround False False), 3)
      else if take 2 cs = ''?<'' then
        (case read_name (drop 2 cs) [] 0 of
           None \<Rightarrow> Inl SyntaxError
         | Some (nm, k) \<Rightarrow> if valid_name nm then Inr (Open Capture, 2 + k) else Inl SyntaxError)
      else Inl SyntaxError)"

definition atom_escape :: "pattern_ctx \<Rightarrow> string \<Rightarrow> regexp_error + (token \<times> nat)" where
  "atom_escape ctx s =
     (case s of
        [] \<Rightarrow> Inl SyntaxError
      | d # ds \<Rightarrow>
          if d = CHR ''b'' then Inr (Term (Boundary True) False, 1)
          else if d = CHR ''B'' then Inr (Term (Boundary False) False, 1)
          else if class_escape d \<noteq> None then Inr (Term (Chars (the (class_escape d))) True, 1)
          else if d = CHR ''c'' then
            (if ds \<noteq> [] \<and> (is_lower (hd ds) \<or> is_upper (hd ds))
               then Inr (Term (unit_re (ignoreCase ctx) (of_char (hd ds) mod 32)) True, 2)
             else Inr (Term (unit_re (ignoreCase ctx) (of_char backslash)) True, 0))
          else if d = CHR ''k'' \<and> list_ex (\<lambda>e. e \<noteq> None) (group_names ctx) then
            (if take 1 ds \<noteq> ''<'' then Inl SyntaxError
             else
               (case read_name (drop 1 ds) [] 0 of
                  None \<Rightarrow> Inl SyntaxError
                | Some (nm, k) \<Rightarrow>
                    (case name_index nm (group_names ctx) of
                       None \<Rightarrow> Inl SyntaxError
                     | Some i \<Rightarrow>
                         if valid_name nm then Inr (Term (Backref (ignoreCase ctx) i) True, 2 + k)
                         else Inl SyntaxError)))
          else if is_digit d \<and> d \<noteq> CHR ''0''
                  \<and> digits_value (takeWhile is_digit s) \<le> length (group_names ctx) then
            Inr (Term (Backref (ignoreCase ctx) (digits_value (takeWhile is_digit s))) True,
                 length (takeWhile is_digit s))
          else Inr (Term (unit_re (ignoreCase ctx) (fst (character_escape d ds))) True,
                    snd (character_escape d ds)))"

text \<open>The next token of a source, \<open>c\<close> being its first character, and the number of
  characters read after \<open>c\<close>.\<close>

definition next_token :: "pattern_ctx \<Rightarrow> char \<Rightarrow> string \<Rightarrow> regexp_error + (token \<times> nat)" where
  "next_token ctx c cs =
     (if c = CHR ''|'' then Inr (Bar, 0)
      else if c = CHR '')'' then Inr (Close, 0)
      else if c = CHR ''('' then open_group cs
      else if c = CHR ''*'' then quantifier 0 None 0 cs
      else if c = CHR ''+'' then quantifier 1 None 0 cs
      else if c = CHR ''?'' then quantifier 0 (Some 1) 0 cs
      else if c = CHR ''{'' \<and> braces cs \<noteq> None then
        (case the (braces cs) of
           (mn, mx, k) \<Rightarrow>
             if (case mx of None \<Rightarrow> False | Some m \<Rightarrow> m < mn) then Inl SyntaxError
             else quantifier mn mx k cs)
      else if c = CHR ''^'' then Inr (Term Start False, 0)
      else if c = CHR ''$'' then Inr (Term End False, 0)
      else if c = CHR ''.'' then Inr (Term (Chars (\<lambda>x. \<not> is_line_terminator x)) True, 0)
      else if c = CHR ''['' then
        (case class_items ctx (if take 1 cs = ''^'' then drop 1 cs else cs) 0 [] of
           Inl e \<Rightarrow> Inl e
         | Inr (items, k) \<Rightarrow>
             if take 1 cs = ''^''
               then Inr (Term (Chars (\<lambda>x. \<not> list_ex (item_match (ignoreCase ctx) x) items)) True, Suc k)
             else Inr (Term (Chars (\<lambda>x. list_ex (item_match (ignoreCase ctx) x) items)) True, k))
      else if c = backslash then atom_escape ctx cs
      else Inr (Term (unit_re (ignoreCase ctx) (of_char c)) True, 0))"

fun cats :: "re list \<Rightarrow> re" where
  "cats [] = Empty"
| "cats [r] = r"
| "cats (r # rs) = Cat r (cats rs)"

fun ors :: "re list \<Rightarrow> re" where
  "ors [] = Empty"
| "ors [r] = r"
| "ors (r # rs) = Or r (ors rs)"

text \<open>A frame is what has been read of a disjunction: its finished alternatives and the
  terms of the current one, both latest first.\<close>

type_synonym frame = "re list \<times> (re \<times> bool) list"

definition disjunction :: "frame \<Rightarrow> re" where
  "disjunction fr = ors (rev (cats (rev (map fst (snd fr))) # fst fr))"

fun wrap_group :: "group_kind \<Rightarrow> nat \<Rightarrow> re \<Rightarrow> re \<times> bool" where
  "wrap_group Capture n r = (Group n r, True)"
| "wrap_group NonCapture n r = (r, True)"
| "wrap_group (Lookaround ahead positive) n r = (Look ahead positive r, ahead)"

function parse_pattern ::
  "pattern_ctx \<Rightarrow> string \<Rightarrow> nat \<Rightarrow> frame \<Rightarrow> (group_kind \<times> nat \<times> frame) list \<Rightarrow> regexp_error + re" where
  "parse_pattern ctx [] n fr stack = (if stack = [] then Inr (disjunction fr) else Inl SyntaxError)"
| "parse_pattern ctx (c # cs) n fr stack =
     (case next_token ctx c cs of
        Inl e \<Rightarrow> Inl e
      | Inr (tok, k) \<Rightarrow>
          (case tok of
             Bar \<Rightarrow> parse_pattern ctx (drop k cs) n (cats (rev (map fst (snd fr))) # fst fr, []) stack
           | Open kind \<Rightarrow>
               if kind = Capture
                 then parse_pattern ctx (drop k cs) (Suc n) ([], []) ((kind, Suc n, fr) # stack)
               else parse_pattern ctx (drop k cs) n ([], []) ((kind, n, fr) # stack)
           | Close \<Rightarrow>
               (case stack of
                  [] \<Rightarrow> Inl SyntaxError
                | (kind, i, outer) # stack' \<Rightarrow>
                    parse_pattern ctx (drop k cs) n
                      (fst outer, wrap_group kind i (disjunction fr) # snd outer) stack')
           | Quantifier mn mx greedy \<Rightarrow>
               (case snd fr of
                  [] \<Rightarrow> Inl SyntaxError
                | (r, q) # terms \<Rightarrow>
                    if q then parse_pattern ctx (drop k cs) n
                                (fst fr, (Repeat mn mx greedy r, False) # terms) stack
                    else Inl SyntaxError)
           | Term r q \<Rightarrow> parse_pattern ctx (drop k cs) n (fst fr, (r, q) # snd fr) stack))"
  by pat_completeness auto
termination
  by (relation "measure (\<lambda>(ctx, s, n, fr, stack). length s)") auto

definition RegExp :: "string \<Rightarrow> bool \<Rightarrow> regexp_error + re" where
  "RegExp source ic =
     (let names = scan_groups False source in
      if \<not> distinct (filter (\<lambda>e. e \<noteq> None) names) then Inl SyntaxError
      else parse_pattern \<lparr>ignoreCase = ic, group_names = names\<rparr> source 0 ([], []) [])"

section \<open>The false-positive filter\<close>

definition FILIPINO_FUNCTION_WORDS :: "string list" where
  "FILIPINO_FUNCTION_WORDS =
     [
      ''parang'', ''iba'', ''ba'', ''pa'', ''na'', ''naman'', ''din'', ''daw'', ''raw'',
      ''sana'', ''kaya'', ''nang'', ''nga'', ''pala'', ''lang'', ''lamang'', ''kahit'',
      ''kung'', ''kasi'', ''pero'', ''at'', ''o'', ''ni'', ''ng'', ''sa'', ''rin'',
      ''dito'', ''rito'', ''doon'', ''roon'', ''dyan'', ''ryan'', ''saan'', ''bakit'',
      ''paano'', ''sino'', ''ano'', ''alin'', ''aling'', ''eh'', ''ha'', ''oo'', ''opo'',
      ''hindi'', ''huwag'', ''ayaw'', ''ako'', ''ikaw'', ''siya'', ''kami'', ''kayo'',
      ''sila'', ''tayo'', ''ko'', ''mo'', ''niya'', ''namin'', ''natin'', ''ninyo'',
      ''nila'', ''akin'', ''iyo'', ''kaniya'', ''amin'', ''atin'', ''inyo'', ''kanila'',
      ''kanya'', ''sarili'', ''nito'', ''nyan'', ''niyan'', ''noon'', ''ngayon'', ''wala'',
      ''meron'', ''may'', ''mayroon'', ''walang'', ''lahat'', ''bawat'', ''kada'',
      ''ilan'', ''marami'', ''konti'', ''kaunti'', ''isa'', ''dalawa'', ''tatlo'',
      ''apat'', ''lima'', ''anim'', ''pito'', ''walo'', ''siyam'', ''sampu'', ''sobra'',
      ''kulang'', ''tama'', ''mali'', ''totoo'', ''tunay'', ''talaga'', ''araw'', ''gabi'',
      ''umaga'', ''hapon'', ''tanghali'', ''madaling araw'', ''kahapon'', ''bukas'',
      ''ngayon'', ''kanina'', ''mamaya'', ''maya'', ''minsan'', ''lagi'', ''palagi'',
      ''madalas'', ''bihira'', ''oras'', ''minuto'', ''segundo'', ''linggo'', ''buwan'',
      ''taon'', ''sandali'', ''saglit'', ''ngayong araw'', ''kagabi'', ''kaninang umaga'',
      ''bago'', ''luma'', ''malaki'', ''maliit'', ''mabilis'', ''mabagal'', ''mahaba'',
      ''maikli'', ''matanda'', ''bata'', ''maganda'', ''pangit'', ''mahal'', ''mura'',
      ''mainit'', ''malamig'', ''mataas'', ''mababa'', ''malayo'', ''malapit'', ''magaan'',
      ''mabigat'', ''masaya'', ''malungkot'', ''gawa'', ''sabi'', ''kain'', ''inom'',
      ''tulog'', ''gising'', ''lakad'', ''takbo'', ''laro'', ''trabaho'', ''aral'',
      ''basa'', ''sulat'', ''bili'', ''bayad'', ''sakay'', ''baba'', ''pasok'', ''labas'',
      ''dating'', ''alis'', ''uwi'', ''balik'', ''punta'', ''tuloy'', ''tigil'',
      ''simula'', ''tapos'', ''dahil'', ''sapagkat'', ''subalit'', ''datapwat'',
      ''samantala'', ''gayunman'', ''gayunpaman'', ''bagamat'', ''ngunit'', ''upang'',
      ''nang'', ''kapag'', ''pag'', ''kung'', ''sakali'', ''baka'', ''siguro'',
      ''marahil'', ''naku'', ''hay'', ''hala'', ''aba'', ''sus'', ''diyos ko'', ''grabe'',
      ''sayang'', ''sige'', ''tara'', ''halika'', ''sandali'', ''teka'', ''hintay'',
      ''tignan'']"

definition ENGLISH_FALSE_POSITIVES :: "string list" where
  "ENGLISH_FALSE_POSITIVES =
     [
      ''real'', ''goal'', ''goals'', ''usual'', ''usually'', ''face'', ''facebook'',
      ''book'', ''books'', ''load'', ''loading'', ''loaded'', ''upload'', ''download'',
      ''reload'', ''alone'', ''loan'', ''loans'', ''can'', ''cant'', ''cannot'', ''ban'',
      ''bans'', ''banned'', ''pan'', ''pans'', ''tan'', ''tans'', ''man'', ''men'',
      ''new'', ''news'', ''newer'', ''newest'', ''renew'', ''lag'', ''lagging'', ''lags'',
      ''ping'', ''pings'', ''pinged'', ''plan'', ''plans'', ''planning'', ''planned'',
      ''pass'', ''passed'', ''passing'', ''password'', ''data'', ''database'', ''update'',
      ''updates'', ''service'', ''services'', ''servicing'', ''announce'', ''announced'',
      ''announcement'', ''announcing'', ''register'', ''registered'', ''registration'',
      ''registering'', ''apply'', ''applied'', ''application'', ''applying'', ''pay'',
      ''paid'', ''payment'', ''paying'', ''say'', ''said'', ''saying'', ''says'', ''down'',
      ''up'', ''online'', ''offline'', ''active'', ''inactive'', ''good'', ''bad'',
      ''better'', ''best'', ''worse'', ''worst'', ''same'', ''different'', ''similar'',
      ''exact'', ''day'', ''days'', ''daily'', ''today'', ''yesterday'', ''tomorrow'',
      ''week'', ''weeks'', ''weekly'', ''month'', ''months'', ''monthly'', ''year'',
      ''years'', ''yearly'', ''annual'', ''annually'']"

definition CONTEXT_DEPENDENT_WORDS :: "string list" where
  "CONTEXT_DEPENDENT_WORDS =
     [
      ''aurora'', ''victoria'', ''angeles'', ''carmen'', ''esperanza'', ''florida'',
      ''jordan'', ''leon'', ''mercedes'', ''salvador'', ''santiago'', ''trinidad'',
      ''valencia'']"

text \<open>
  \<open>/^(nag|mag|um|in|na|ma|i|ipa|pag|pang|ka)/i\<close>, \<open>/^(nag|mag)(ka|pa|si)/i\<close>,
  \<open>/(in|an|han)$/i\<close> and \<open>/(um|in).*?(in|an)$/i\<close>.
\<close>

definition verb_prefixes :: "string list" where
  "verb_prefixes =
     [''nag'', ''mag'', ''um'', ''in'', ''na'', ''ma'', ''i'', ''ipa'', ''pag'', ''pang'', ''ka'']"

definition verb_suffixes :: "string list" where
  "verb_suffixes = [''in'', ''an'', ''han'']"

definition TAGALOG_VERB_PATTERNS :: "rx list" where
  "TAGALOG_VERB_PATTERNS =
     [Seq Bol (words_i verb_prefixes),
      seqs [Bol, words_i [''nag'', ''mag''], words_i [''ka'', ''pa'', ''si'']],
      Seq (words_i verb_suffixes) Eol,
      seqs [words_i [''um'', ''in''], LazyStar dot, words_i [''in'', ''an''], Eol]]"

definition NON_LOCATION_PATTERNS :: "rx list" where
  "NON_LOCATION_PATTERNS =
     [seqs [WordB, words_i [''nag'', ''mag'', ''um''], Star space, Plus wordc],
      seqs [WordB, Plus wordc, str_i ''ing'', WordB],
      seqs [WordB, Plus wordc, str_i ''ed'', WordB],
      seqs [chr CHR ''@'', Plus wordc],
      seqs [chr CHR ''#'', Plus wordc],
      seqs [chr CHR ''.'', words_i [''com'', ''net'', ''org'', ''ph'']],
      seqs [str_i ''http'', Opt (chr_i CHR ''s''), str ''://''],
      seqs [WordB, digit, Opt digit, words_i [''am'', ''pm''], WordB],
      seqs [WordB,
            words_i [''jan'', ''feb'', ''mar'', ''apr'', ''may'', ''jun'', ''jul'', ''aug'',
                     ''sep'', ''oct'', ''nov'', ''dec''],
            Plus space, Plus digit],
      seqs [WordB, str_i ''september'', Plus space, Plus digit],
      seqs [WordB,
            words_i [''down'', ''offline'', ''slow'', ''lag'', ''delay'', ''issue'', ''problem'',
                     ''error'']],
      seqs [WordB, words_i [''walang'', ''no'', ''without''], Plus space,
            words_i [''internet'', ''connection'', ''service'', ''signal'']]]"

definition place_markers :: "string list" where
  "place_markers = [''city'', ''municipality'', ''province'', ''region'', ''barangay'', ''brgy'']"

definition LOCATION_CONTEXT_PATTERNS :: "rx list" where
  "LOCATION_CONTEXT_PATTERNS =
     [seqs [WordB,
            words_i [''taga'', ''galing'', ''from'', ''sa'', ''nasa'', ''dito'', ''rito'',
                     ''nandito'', ''narito''],
            Plus space],
      seqs [WordB,
            alts [seqs [str_i ''here'', Plus space, str_i ''in''],
                  seqs [str_i ''located'', Plus space, str_i ''at''],
                  seqs [str_i ''located'', Plus space, str_i ''in''],
                  seqs [str_i ''based'', Plus space, str_i ''in'']],
            Plus space],
      seqs [WordB, words_i [''address'', ''location'', ''lugar'', ''area'', ''place''],
            Star space, Alt (chr CHR '':'') (chr CHR ''=''), Star space],
      seqs [WordB, Plus letter_i, Plus space, str_i ''area'', WordB],
      seqs [WordB, words_i [''here'', ''dito'', ''rito''], WordB],
      seqs [WordB, words_i [''around'', ''near''], Plus space, letter_i],
      seqs [WordB, words_i [''living'', ''staying'', ''working''], Plus space, str_i ''in'',
            Plus space, letter_i],
      seqs [WordB, words_i place_markers, Plus space],
      seqs [WordB, words_i place_markers, Eol],
      seqs [chr CHR '','', Star space, str_i ''philippines'', Eol],
      seqs [WordB,
            words_i [''north'', ''south'', ''east'', ''west'', ''northern'', ''southern'',
                     ''eastern'', ''western''],
            Plus space],
      seqs [WordB, words_i [''upper'', ''lower'', ''central'', ''downtown'', ''suburban''],
            Plus space]]"

text \<open>\<open>isFalsePositive(word, fullText = '')\<close>.\<close>

definition isFalsePositive :: "string \<Rightarrow> string \<Rightarrow> bool" where
  "isFalsePositive word fullText =
     (if word = [] then True
      else
        (let normalized = trim (toLowerCase word);
             fullTextLower = toLowerCase fullText
         in if normalized \<in> set FILIPINO_FUNCTION_WORDS then True
            else if normalized \<in> set ENGLISH_FALSE_POSITIVES then True
            else if list_ex (\<lambda>pattern. rx_test pattern normalized) TAGALOG_VERB_PATTERNS then True
            else if normalized \<in> set CONTEXT_DEPENDENT_WORDS
              then \<not> list_ex (\<lambda>pattern. rx_test pattern fullTextLower) LOCATION_CONTEXT_PATTERNS
            else list_ex (\<lambda>pattern.
                   case rx_match pattern fullTextLower of
                     None \<Rightarrow> False
                   | Some (i, m0) \<Rightarrow> js_includes m0 normalized) NON_LOCATION_PATTERNS))"

text \<open>\<open>hasLocationContext(text)\<close>, with \<open>/\b(taga|dito\s+sa|nasa)\s+\w+/i\<close>,
  \<open>/\w+\s+area\b/i\<close> and \<open>/\b(location|address)\s*[:=]/i\<close>.\<close>

definition hasLocationContext :: "string \<Rightarrow> bool" where
  "hasLocationContext text =
     (let textLower = toLowerCase text
      in if rx_test (seqs [WordB,
                           alts [str_i ''taga'', seqs [str_i ''dito'', Plus space, str_i ''sa''],
                                 str_i ''nasa''],
                           Plus space, Plus wordc]) textLower then True
         else if rx_test (seqs [Plus wordc, Plus space, str_i ''area'', WordB]) textLower then True
         else if rx_test (seqs [WordB, words_i [''location'', ''address''], Star space,
                                Alt (chr CHR '':'') (chr CHR ''='')]) textLower then True
         else list_ex (\<lambda>pattern. rx_test pattern textLower) LOCATION_CONTEXT_PATTERNS)"

text \<open>
  \<open>new RegExp(`\\b${word}\\b`, 'i')\<close> reads the word as the source of a pattern: a word
  that is not one makes the constructor throw, and a character of the pattern syntax in the
  word has its meaning in the syntax.
\<close>

definition match_text :: "nat \<times> captures \<Rightarrow> string" where
  "match_text m = (case map_of (snd m) 0 of None \<Rightarrow> [] | Some s \<Rightarrow> s)"

text \<open>The class \<open>[\s,.\-!?;:]\<close> of the second check.\<close>

definition is_boundary_char :: "char \<Rightarrow> bool" where
  "is_boundary_char c = (is_space c \<or> c \<in> set '',.-!?;:'')"

definition extractWordWithBoundaries :: "string \<Rightarrow> string \<Rightarrow> regexp_error + string option" where
  "extractWordWithBoundaries text word =
     (case RegExp ([backslash, CHR ''b''] @ word @ [backslash, CHR ''b'']) True of
        Inl e \<Rightarrow> Inl e
      | Inr wordRegex \<Rightarrow>
          (case re_exec wordRegex text of
             None \<Rightarrow> Inr None
           | Some m \<Rightarrow>
               (let index = fst m;
                    m0 = match_text m;
                    before_ch = (if index > 0 then text ! (index - 1) else CHR '' '');
                    after_ch = (if index + length m0 < length text then text ! (index + length m0)
                                else CHR '' '')
                in if is_boundary_char before_ch \<and> is_boundary_char after_ch then Inr (Some m0)
                   else Inr None)))"

record validation =
  isValid :: bool
  reason :: "string option"
  candidate :: "string option"

definition validateLocationCandidate :: "string \<Rightarrow> string \<Rightarrow> regexp_error + validation" where
  "validateLocationCandidate cand fullText =
     (if cand = [] \<or> length cand < 3
        then Inr \<lparr>isValid = False, reason = Some ''Too short'', candidate = None\<rparr>
      else if isFalsePositive cand fullText
        then Inr \<lparr>isValid = False, reason = Some ''Common word false positive'', candidate = None\<rparr>
      else if \<not> hasLocationContext fullText
        then Inr \<lparr>isValid = False, reason = Some ''No location context'', candidate = None\<rparr>
      else
        (case extractWordWithBoundaries fullText cand of
           Inl e \<Rightarrow> Inl e
         | Inr extracted \<Rightarrow>
             if extracted = None \<or> extracted = Some []
               then Inr \<lparr>isValid = False, reason = Some ''Not a complete word'', candidate = None\<rparr>
             else Inr \<lparr>isValid = True, reason = None, candidate = extracted\<rparr>))"

section \<open>Results of the parsers\<close>

text \<open>
  A result is an object with the properties \<open>region\<close>, \<open>province\<close>, \<open>city\<close> and
  \<open>barangay\<close>, and \<open>regionCode\<close> when it is a row of the barangay table. A property
  that the object does not have, or whose value was read from an object without it, is
  \<open>undefined\<close>.
\<close>

datatype js_value = Str string | Undefined

fun js_true :: "js_value \<Rightarrow> bool" where
  "js_true (Str s) = (s \<noteq> [])"
| "js_true Undefined = False"

record location_match =
  m_region :: js_value
  m_province :: js_value
  m_city :: js_value
  m_barangay :: js_value
  m_regionCode :: js_value

definition of_barangay_row :: "barangay_row \<Rightarrow> location_match" where
  "of_barangay_row b =
     \<lparr>m_region = Str (region b), m_province = Str (province b), m_city = Str (city b),
      m_barangay = Str (barangay b), m_regionCode = Str (regionCode b)\<rparr>"

text \<open>\<open>{region: cityMatch.region, province: cityMatch.province, city: cityMatch.city,
  barangay: ''}\<close>.\<close>

definition of_city_row :: "city_row \<Rightarrow> location_match" where
  "of_city_row c =
     \<lparr>m_region = Str (region c), m_province = Str (province c), m_city = Str (city c),
      m_barangay = Str [], m_regionCode = Undefined\<rparr>"

text \<open>\<open>{region: provinceMatch.region, province: provinceMatch.province, city: '',
  barangay: ''}\<close>, where \<open>provinceMatch\<close> is a row or the inherited \<open>constructor\<close>.\<close>

fun of_province :: "province_row js_prop \<Rightarrow> location_match option" where
  "of_province (Own p) =
     Some \<lparr>m_region = Str (region p), m_province = Str (province p), m_city = Str [],
           m_barangay = Str [], m_regionCode = Undefined\<rparr>"
| "of_province Proto =
     Some \<lparr>m_region = Undefined, m_province = Undefined, m_city = Str [],
           m_barangay = Str [], m_regionCode = Undefined\<rparr>"
| "of_province Absent = None"

text \<open>The lookups return one row, never an array: a row has no property \<open>length\<close> and
  no element \<open>0\<close>.\<close>

definition row_length :: "'a admin_base_scheme \<Rightarrow> nat option" where
  "row_length r = None"

definition row_element :: "'a admin_base_scheme \<Rightarrow> nat \<Rightarrow> 'a admin_base_scheme option" where
  "row_element r i = None"

section \<open>The hierarchical parser\<close>







record contexts =
  ctx_city :: "string option"
  ctx_province :: "string option"

text \<open>The first loop of \<open>extractContexts\<close>. In its branch \<open>cityMatch[0].province\<close> reads a
  property of \<open>undefined\<close>, which throws.\<close>

fun city_context :: "location_index \<Rightarrow> string list \<Rightarrow> contexts \<Rightarrow> error + contexts" where
  "city_context idx [] ctx = Inr ctx"
| "city_context idx (c # cs) ctx =
     (case findCity idx c None of
        None \<Rightarrow> city_context idx cs ctx
      | Some cityMatch \<Rightarrow>
          if row_length cityMatch = Some 1 then
            (case row_element cityMatch 0 of
               None \<Rightarrow> Inl TypeError
             | Some first \<Rightarrow> Inr (ctx\<lparr>ctx_city := Some c, ctx_province := Some (province first)\<rparr>))
          else city_context idx cs ctx)"

fun province_context :: "location_index \<Rightarrow> string list \<Rightarrow> contexts \<Rightarrow> contexts" where
  "province_context idx [] ctx = ctx"
| "province_context idx (c # cs) ctx =
     (case findProvince idx c of
        Absent \<Rightarrow> province_context idx cs ctx
      | _ \<Rightarrow> ctx\<lparr>ctx_province := Some c\<rparr>)"

definition extractContexts :: "location_index \<Rightarrow> string list \<Rightarrow> string \<Rightarrow> error + contexts" where
  "extractContexts idx candidates text =
     (case city_context idx candidates \<lparr>ctx_city = None, ctx_province = None\<rparr> of
        Inl e \<Rightarrow> Inl e
      | Inr ctx \<Rightarrow> Inr (province_context idx candidates ctx))"





section \<open>The hierarchical parser, version 2\<close>

text \<open>
  The candidates that \<open>extractCandidates\<close> builds: \<open>{type: 'barangay', name, context}\<close>
  with a context that is a string or \<open>null\<close>, \<open>{type: 'city', name}\<close>,
  \<open>{type: 'location', name}\<close>, \<open>{type: 'area', name}\<close> and
  \<open>{type: 'sequence', parts}\<close> with three parts.
\<close>

datatype candidate =
    BarangayCand string "string option"
  | CityCand string
  | LocationCand string
  | AreaCand string
  | SequenceCand string string string

definition minConfidence :: real where
  "minConfidence = 0.3"

text \<open>The branch for the types \<open>city\<close> and \<open>location\<close>: each later success overwrites
  the match and the score of the earlier ones.\<close>

definition generic_match :: "location_index \<Rightarrow> string \<Rightarrow> location_match option \<times> real" where
  "generic_match idx name =
     (let r0 = (None, 0);
          r1 = (case findBarangay idx name None None of
                  None \<Rightarrow> r0
                | Some barangayMatch \<Rightarrow>
                    if \<not> isAmbiguousBarangay idx name
                    then (Some (of_barangay_row barangayMatch), 0.5) else r0);
          r2 = (case findCity idx name None of
                  None \<Rightarrow> r1
                | Some cityMatch \<Rightarrow> (Some (of_city_row cityMatch), 0.6))
      in (case of_province (findProvince idx name) of
            None \<Rightarrow> r2
          | Some provinceResult \<Rightarrow> (Some provinceResult, 0.4)))"

text \<open>The body of the loop of version 2 up to \<open>if (locationMatch)\<close>: the match of one
  candidate and its score before the confidence boost.\<close>

fun candidate_match :: "location_index \<Rightarrow> candidate \<Rightarrow> location_match option \<times> real" where
  "candidate_match idx (BarangayCand name context) =
     (case findBarangay idx name context None of
        None \<Rightarrow> (None, 0)
      | Some barangayMatch \<Rightarrow> (Some (of_barangay_row barangayMatch), 0.8))"
| "candidate_match idx (AreaCand name) =
     (let barangayMatch = findBarangay idx name None None;
          cityMatch = findCity idx name None
      in if barangayMatch \<noteq> None \<and> row_length (the barangayMatch) = Some 1
           then (map_option of_barangay_row (row_element (the barangayMatch) 0), 0.6)
         else (case cityMatch of
                 None \<Rightarrow> (None, 0)
               | Some c \<Rightarrow> (Some (of_city_row c), 0.7)))"
| "candidate_match idx (SequenceCand first second third) =
     (case findBarangay idx first (Some second) None of
        None \<Rightarrow> (None, 0)
      | Some barangayMatch \<Rightarrow> (Some (of_barangay_row barangayMatch), 0.7))"
| "candidate_match idx (CityCand name) = generic_match idx name"
| "candidate_match idx (LocationCand name) = generic_match idx name"

definition best_step_v2 ::
  "location_index \<Rightarrow> real \<Rightarrow> candidate \<Rightarrow> location_match option \<times> real
     \<Rightarrow> location_match option \<times> real" where
  "best_step_v2 idx confidence cand best =
     (case candidate_match idx cand of
        (None, score) \<Rightarrow> best
      | (Some locationMatch, score) \<Rightarrow>
          if score * (1 + confidence) > snd best
          then (Some locationMatch, score * (1 + confidence)) else best)"

text \<open>\<open>HierarchicalLocationParserV2.findBestMatch(candidates, fullText, confidence)\<close>. The
  scores are JavaScript numbers; they are taken as real numbers here.\<close>

definition findBestMatch_v2 ::
  "location_index \<Rightarrow> candidate list \<Rightarrow> string \<Rightarrow> real \<Rightarrow> location_match option" where
  "findBestMatch_v2 idx candidates fullText confidence =
     (let best = foldl (\<lambda>best cand. best_step_v2 idx confidence cand best) (None, 0) candidates
      in if snd best < minConfidence then None else fst best)"

section \<open>The enhanced matcher\<close>

subsection \<open>The index read from the table of locations\<close>

text \<open>
  The enhanced matcher looks names up in the index that \<open>ExcelLocationIndex\<close> builds from
  the JSON form of the table of locations. The rows are the objects that
  \<open>convert-excel-to-json.js\<close> writes: a province \<open>{name, region, cities}\<close>, a city
  \<open>{name, province, region, barangays}\<close> and a barangay \<open>{name, city, province, region}\<close>,
  where a province or region that the table leaves empty is \<open>null\<close>. The tables are
  \<open>Map\<close>s from normalised names, kept as association lists in insertion order.
\<close>

record excel_province =
  xp_name :: string
  xp_region :: "string option"
  xp_cities :: "string list"

record excel_city =
  xc_name :: string
  xc_province :: "string option"
  xc_region :: "string option"
  xc_barangays :: "string list"

record excel_barangay =
  xb_name :: string
  xb_city :: string
  xb_province :: "string option"
  xb_region :: "string option"

record excel_index =
  initialized :: bool
  excel_provinceIndex :: "(string \<times> excel_province) list"
  excel_cityIndex :: "(string \<times> excel_city list) list"
  excel_barangayIndex :: "(string \<times> excel_barangay list) list"

text \<open>
  \<open>toUpperCase\<close>: the sharp s U+00DF becomes \<open>SS\<close>. The upper cases of the micro sign
  U+00B5 and of U+00FF are not 8-bit characters; the two are left in place, which makes no
  difference below: \<open>normalize\<close> deletes them as it deletes their upper cases, and the
  words that are capitalised are made of the letters a to z.
\<close>

definition toUpperCase :: "string \<Rightarrow> string" where
  "toUpperCase s = concat (map (\<lambda>c. if c = CHR 0xDF then ''SS'' else [toUpperChar c]) s)"

text \<open>\<open>ExcelLocationIndex.normalize(text)\<close>: \<open>toUpperCase\<close>, then
  \<open>.replace(/[^A-Z0-9\s]/g, '')\<close>, \<open>.replace(/\s+/g, ' ')\<close> and \<open>trim\<close>.\<close>

definition excel_normalize :: "string \<Rightarrow> string" where
  "excel_normalize text =
     (if text = [] then []
      else trim (collapse_spaces
             (filter (\<lambda>c. is_upper c \<or> is_digit c \<or> is_space c) (toUpperCase text))))"

subsection \<open>Word boundaries\<close>

text \<open>\<open>escapeRegex(string)\<close>: \<open>.replace(/[.*+?^${}()|[\]\\]/g, '\\$&')\<close>.\<close>

definition escapeRegex :: "string \<Rightarrow> string" where
  "escapeRegex s =
     concat (map (\<lambda>c. if c \<in> set (''.*+?^${}()|[]'' @ [backslash]) then [backslash, c] else [c]) s)"

text \<open>The patterns of a list of constructor calls, or the error of the first call that
  throws.\<close>

fun built :: "(regexp_error + re) list \<Rightarrow> regexp_error + re list" where
  "built [] = Inr []"
| "built (Inl e # rs) = Inl e"
| "built (Inr r # rs) = (case built rs of Inl e \<Rightarrow> Inl e | Inr ps \<Rightarrow> Inr (r # ps))"

text \<open>\<open>hasWordBoundaryMatch(text, word)\<close>. The five patterns are built without flags from
  the escaped word.\<close>

definition hasWordBoundaryMatch :: "string \<Rightarrow> string \<Rightarrow> regexp_error + bool" where
  "hasWordBoundaryMatch text word =
     (if word = [] then Inr False
      else
        (let normalizedWord = excel_normalize word;
             normalizedText = excel_normalize text;
             w = escapeRegex normalizedWord;
             b = [backslash, CHR ''b''];
             s = [backslash, CHR ''s'']
         in case built [RegExp (b @ w @ b) False,
                        RegExp (''^'' @ w @ b) False,
                        RegExp (b @ w @ ''$'') False,
                        RegExp (b @ w @ s @ ''*,'') False,
                        RegExp ('','' @ s @ ''*'' @ w @ b) False] of
              Inl e \<Rightarrow> Inl e
            | Inr patterns \<Rightarrow> Inr (list_ex (\<lambda>pattern. re_test pattern normalizedText) patterns)))"

subsection \<open>The confidence\<close>

text \<open>
  \<open>/\blocation\s*[:=]\s*[a-z]/i\<close>, \<open>/\baddress\s*[:=]\s*[a-z]/i\<close>,
  \<open>/\b(?:based|living|staying|working)\s+in\b/i\<close>, \<open>/\bhere\s+in\b/i\<close> and
  \<open>/\btaga\s+[a-z]/i\<close>.
\<close>

definition EXPLICIT_LOCATION_PATTERNS :: "rx list" where
  "EXPLICIT_LOCATION_PATTERNS =
     [seqs [WordB, str_i ''location'', Star space, Alt (chr CHR '':'') (chr CHR ''=''), Star space,
            letter_i],
      seqs [WordB, str_i ''address'', Star space, Alt (chr CHR '':'') (chr CHR ''=''), Star space,
            letter_i],
      seqs [WordB, words_i [''based'', ''living'', ''staying'', ''working''], Plus space,
            str_i ''in'', WordB],
      seqs [WordB, str_i ''here'', Plus space, str_i ''in'', WordB],
      seqs [WordB, str_i ''taga'', Plus space, letter_i]]"

text \<open>
  \<open>/\b(?:dito|rito)\s+sa\s+[a-z]/i\<close>, \<open>/\b(?:around|near)\s+[a-z]/i\<close>,
  \<open>/\b(?:area|place)\s+(?:ng|of)\s+[a-z]/i\<close>, \<open>/\b(?:nasa|nandito|narito)\s+[a-z]/i\<close> and
  \<open>/\b(?:living|staying|working|based)\s+in\s+[a-z]/i\<close>.
\<close>

definition IMPLICIT_LOCATION_PATTERNS :: "rx list" where
  "IMPLICIT_LOCATION_PATTERNS =
     [seqs [WordB, words_i [''dito'', ''rito''], Plus space, str_i ''sa'', Plus space, letter_i],
      seqs [WordB, words_i [''around'', ''near''], Plus space, letter_i],
      seqs [WordB, words_i [''area'', ''place''], Plus space, words_i [''ng'', ''of''], Plus space,
            letter_i],
      seqs [WordB, words_i [''nasa'', ''nandito'', ''narito''], Plus space, letter_i],
      seqs [WordB, words_i [''living'', ''staying'', ''working'', ''based''], Plus space,
            str_i ''in'', Plus space, letter_i]]"

definition LOCATION_INDICATOR_WORDS :: "string list" where
  "LOCATION_INDICATOR_WORDS =
     [''area'', ''place'', ''living'', ''based'', ''staying'', ''work'', ''working'',
      ''dito'', ''rito'', ''nasa'', ''location'', ''address'', ''near'', ''around'',
      ''taga'', ''sa'', ''based in'', ''here in'']"

text \<open>
  \<open>/\bwalang?\s+(?:internet|signal|connection)/i\<close>,
  \<open>/\bno\s+(?:internet|connection|signal)/i\<close>, \<open>/\b(?:wala|walang|hindi)\s+location/i\<close>
  and \<open>/\b(?:issue|problem)\s+(?:dito|rito)/i\<close>.
\<close>

definition NEGATIVE_CONTEXT_PATTERNS :: "rx list" where
  "NEGATIVE_CONTEXT_PATTERNS =
     [seqs [WordB, str_i ''walan'', Opt (chr_i CHR ''g''), Plus space,
            words_i [''internet'', ''signal'', ''connection'']],
      seqs [WordB, str_i ''no'', Plus space, words_i [''internet'', ''connection'', ''signal'']],
      seqs [WordB, words_i [''wala'', ''walang'', ''hindi''], Plus space, str_i ''location''],
      seqs [WordB, words_i [''issue'', ''problem''], Plus space, words_i [''dito'', ''rito'']]]"

definition hasExplicitLocationDeclaration :: "string \<Rightarrow> bool" where
  "hasExplicitLocationDeclaration text =
     list_ex (\<lambda>pattern. rx_test pattern text) EXPLICIT_LOCATION_PATTERNS"

definition hasImplicitLocationPattern :: "string \<Rightarrow> bool" where
  "hasImplicitLocationPattern text =
     list_ex (\<lambda>pattern. rx_test pattern text) IMPLICIT_LOCATION_PATTERNS"

definition hasStrongLocationIndicators :: "string \<Rightarrow> bool" where
  "hasStrongLocationIndicators text =
     (if text = [] then False
      else (let lower = toLowerCase text
            in list_ex (\<lambda>word. js_includes lower word) LOCATION_INDICATOR_WORDS))"

text \<open>
  \<open>calculateConfidence(text, locationType, hasValidContext = false, options = {})\<close>. The
  callers pass one of the four types of \<open>typeBoosts\<close>, and options with some of the
  properties \<open>hashtag\<close>, \<open>ambiguous\<close> and \<open>partial\<close>, a missing one being falsy. The
  result is a JavaScript number, taken as a real number here.
\<close>

datatype location_type = OfBarangay | OfCity | OfProvince | OfRegion

fun typeBoosts :: "location_type \<Rightarrow> int" where
  "typeBoosts OfBarangay = 25"
| "typeBoosts OfCity = 20"
| "typeBoosts OfProvince = 15"
| "typeBoosts OfRegion = 10"

record confidence_options =
  opt_hashtag :: bool
  opt_ambiguous :: bool
  opt_partial :: bool

definition calculateConfidence ::
  "string \<Rightarrow> location_type \<Rightarrow> bool \<Rightarrow> confidence_options \<Rightarrow> real" where
  "calculateConfidence text locationType hasValidContext options =
     (let score = 35 + typeBoosts locationType;
          score = (if hasValidContext then score + 15 else score);
          score = (if hasExplicitLocationDeclaration text then score + 25 else score);
          score = (if hasImplicitLocationPattern text then score + 15 else score);
          score = (if hasStrongLocationIndicators text then score + 10 else score);
          score = (if opt_hashtag options then score + 20 else score);
          score = (if opt_ambiguous options then score - 10 else score);
          score = (if opt_partial options then score - 5 else score);
          score = (if list_ex (\<lambda>pattern. rx_test pattern text) NEGATIVE_CONTEXT_PATTERNS
                   then score - 25 else score);
          score = max 20 (min 95 score)
      in real_of_int score / 100)"

subsection \<open>findInDatabase\<close>

text \<open>
  The object \<open>specialCases\<close> as it is written, a later entry for a key replacing an earlier
  one. It is read with a result of \<open>normalize\<close>, which is made of capital letters, digits
  and spaces and so is no name of a property of \<open>Object.prototype\<close>.
\<close>

definition specialCases :: "(string \<times> string) list" where
  "specialCases =
     [(''metro manila'', ''manila''),
      (''quezon'', ''quezon city''),
      (''qc'', ''quezon city''),
      (''makati'', ''makati city''),
      (''taguig'', ''taguig city''),
      (''bgc'', ''taguig city''),
      (''pasig'', ''pasig city''),
      (''pateros'', ''pateros''),
      (''mandaluyong'', ''mandaluyong city''),
      (''san juan'', ''san juan city''),
      (''marikina'', ''marikina city''),
      (''caloocan'', ''caloocan city''),
      (''north caloocan'', ''caloocan city''),
      (''south caloocan'', ''caloocan city''),
      (''malabon'', ''malabon city''),
      (''navotas'', ''navotas city''),
      (''valenzuela'', ''valenzuela city''),
      (''las pinas'', ''las pi'' @ [CHR 0xF1] @ ''as city''),
      (''las pi'' @ [CHR 0xF1] @ ''as'', ''las pi'' @ [CHR 0xF1] @ ''as city''),
      (''paranaque'', ''para'' @ [CHR 0xF1] @ ''aque city''),
      (''para'' @ [CHR 0xF1] @ ''aque'', ''para'' @ [CHR 0xF1] @ ''aque city''),
      (''muntinlupa'', ''muntinlupa city''),
      (''bacoor'', ''bacoor city''),
      (''imus'', ''imus city''),
      (''dasmarinas'', ''dasmari'' @ [CHR 0xF1] @ ''as city''),
      (''dasmari'' @ [CHR 0xF1] @ ''as'', ''dasmari'' @ [CHR 0xF1] @ ''as city''),
      (''gen trias'', ''general trias city''),
      (''general trias'', ''general trias city''),
      (''trece martires'', ''trece martires city''),
      (''tagaytay'', ''tagaytay city''),
      (''general santos'', ''general santos city''),
      (''gensan'', ''general santos city''),
      (''davao'', ''davao city''),
      (''cebu'', ''cebu city''),
      (''lapu lapu'', ''lapu-lapu city''),
      (''lapu-lapu'', ''lapu-lapu city''),
      (''mandaue'', ''mandaue city''),
      (''talisay'', ''talisay city''),
      (''consolacion'', ''consolacion''),
      (''cagayan de oro'', ''cagayan de oro city''),
      (''cdo'', ''cagayan de oro city''),
      (''zamboanga'', ''zamboanga city''),
      (''bacolod'', ''bacolod city''),
      (''iloilo'', ''iloilo city''),
      (''angeles'', ''angeles city''),
      (''san fernando'', ''city of san fernando''),
      (''malolos'', ''malolos city''),
      (''antipolo'', ''antipolo city''),
      (''montalban'', ''rodriguez''),
      (''bulacan'', ''bulacan''),
      (''cavite'', ''cavite''),
      (''laguna'', ''laguna''),
      (''batangas'', ''batangas''),
      (''rizal'', ''rizal''),
      (''pampanga'', ''pampanga''),
      (''zambales'', ''zambales''),
      (''bataan'', ''bataan''),
      (''nueva ecija'', ''nueva ecija''),
      (''tarlac'', ''tarlac''),
      (''cebu'', ''cebu''),
      (''bohol'', ''bohol''),
      (''negros oriental'', ''negros oriental''),
      (''negros occidental'', ''negros occidental'')]"

datatype database_row = CityRow excel_city | ProvinceRow excel_province

text \<open>\<open>cities = this.excelIndex.cityIndex.get(key); if (cities && cities.length > 0) return
  cities[0]\<close>.\<close>

definition first_city :: "excel_index \<Rightarrow> string \<Rightarrow> excel_city option" where
  "first_city idx key =
     (case map_of (excel_cityIndex idx) key of
        None \<Rightarrow> None
      | Some rows \<Rightarrow> (case rows of [] \<Rightarrow> None | c # _ \<Rightarrow> Some c))"

text \<open>The loops of the partial matches: the first entry of the table whose name passes
  the test, and for a city whose list is not empty.\<close>

definition partial_city :: "excel_index \<Rightarrow> string \<Rightarrow> string \<Rightarrow> excel_city option" where
  "partial_city idx normalized withoutCity =
     (case filter (\<lambda>(cityName, cityList).
                     (length cityName > 3 \<and> length normalized > 3)
                     \<and> (cityName = normalized \<or> cityName = withoutCity
                         \<or> prefix (normalized @ '' '') cityName
                         \<or> prefix (cityName @ '' '') normalized)
                     \<and> cityList \<noteq> [])
                  (excel_cityIndex idx) of
        [] \<Rightarrow> None
      | (cityName, cityList) # _ \<Rightarrow> Some (hd cityList))"

definition partial_province :: "excel_index \<Rightarrow> string \<Rightarrow> excel_province option" where
  "partial_province idx normalized =
     (case filter (\<lambda>(provinceName, provinceData).
                     length provinceName > 3 \<and> length normalized > 3
                     \<and> (provinceName = normalized \<or> prefix normalized provinceName
                         \<or> prefix provinceName normalized))
                  (excel_provinceIndex idx) of
        [] \<Rightarrow> None
      | (provinceName, provinceData) # _ \<Rightarrow> Some provinceData)"

text \<open>\<open>findInDatabase(name, type)\<close>.\<close>

definition findInDatabase :: "excel_index \<Rightarrow> string \<Rightarrow> string \<Rightarrow> database_row option" where
  "findInDatabase idx name type =
     (if \<not> initialized idx then None
      else
        (let normalized = excel_normalize name;
             withoutCity = strip_city_suffix normalized;
             normalized = (case map_of (rev specialCases) normalized of
                             None \<Rightarrow> normalized
                           | Some special \<Rightarrow> if special = [] then normalized else special)
         in if type = ''city'' then
              (case first_city idx normalized of
                 Some c \<Rightarrow> Some (CityRow c)
               | None \<Rightarrow>
                   (case first_city idx withoutCity of
                      Some c \<Rightarrow> Some (CityRow c)
                    | None \<Rightarrow>
                        (case first_city idx (normalized @ '' city'') of
                           Some c \<Rightarrow> Some (CityRow c)
                         | None \<Rightarrow> map_option CityRow (partial_city idx normalized withoutCity))))
            else if type = ''province'' then
              (case map_of (excel_provinceIndex idx) normalized of
                 Some p \<Rightarrow> Some (ProvinceRow p)
               | None \<Rightarrow> map_option ProvinceRow (partial_province idx normalized))
            else None))"

subsection \<open>findBarangayWithValidation\<close>

text \<open>
  A result of the enhanced matcher is a new object: the properties of a row, when one is
  spread into it, and the properties that the object literal names. \<open>Missing\<close> is a
  property that the object does not have.
\<close>

datatype field = Missing | Null | Text string

fun nullable :: "string option \<Rightarrow> field" where
  "nullable None = Null"
| "nullable (Some s) = Text s"

record enhanced_match =
  em_name :: field
  em_region :: field
  em_province :: field
  em_city :: field
  em_barangay :: field
  em_barangays :: "string list option"
  em_cities :: "string list option"
  em_confidence :: "real option"
  em_validationDetails :: "string list option"

text \<open>\<open>{...row}\<close> for a row that \<open>findInDatabase\<close> returns and for a barangay row.\<close>

fun spread_row :: "database_row \<Rightarrow> enhanced_match" where
  "spread_row (CityRow c) =
     \<lparr>em_name = Text (xc_name c), em_region = nullable (xc_region c),
      em_province = nullable (xc_province c), em_city = Missing, em_barangay = Missing,
      em_barangays = Some (xc_barangays c), em_cities = None, em_confidence = None,
      em_validationDetails = None\<rparr>"
| "spread_row (ProvinceRow p) =
     \<lparr>em_name = Text (xp_name p), em_region = nullable (xp_region p),
      em_province = Missing, em_city = Missing, em_barangay = Missing,
      em_barangays = None, em_cities = Some (xp_cities p), em_confidence = None,
      em_validationDetails = None\<rparr>"

definition spread_barangay :: "excel_barangay \<Rightarrow> enhanced_match" where
  "spread_barangay b =
     \<lparr>em_name = Text (xb_name b), em_region = nullable (xb_region b),
      em_province = nullable (xb_province b), em_city = Text (xb_city b), em_barangay = Missing,
      em_barangays = None, em_cities = None, em_confidence = None,
      em_validationDetails = None\<rparr>"

text \<open>Notation of the patterns with groups, as for the patterns above.\<close>

definition lit :: "char \<Rightarrow> re" where
  "lit c = unit_re False (of_char c)"

definition lit_i :: "char \<Rightarrow> re" where
  "lit_i c = unit_re True (of_char c)"

definition text_i :: "string \<Rightarrow> re" where
  "text_i s = cats (map lit_i s)"

definition texts_i :: "string list \<Rightarrow> re" where
  "texts_i ws = ors (map text_i ws)"

definition many :: "re \<Rightarrow> re" where "many r = Repeat 0 None True r"
definition many1 :: "re \<Rightarrow> re" where "many1 r = Repeat 1 None True r"
definition lazy_many1 :: "re \<Rightarrow> re" where "lazy_many1 r = Repeat 1 None False r"
definition maybe :: "re \<Rightarrow> re" where "maybe r = Repeat 0 (Some 1) True r"

text \<open>\<open>\b(?:brgy\.?|barangay|brg\.?)\s+\<close>, with which the four patterns begin.\<close>

definition barangay_marker :: re where
  "barangay_marker =
     cats [Boundary True,
           ors [Cat (text_i ''brgy'') (maybe (lit CHR ''.'')),
                text_i ''barangay'',
                Cat (text_i ''brg'') (maybe (lit CHR ''.''))],
           many1 (Chars is_space)]"

text \<open>\<open>/\b(?:brgy\.?|barangay|brg\.?)\s+(\d+[a-z]?)\s*,?\s*([a-z]+(?:\s+[a-z]+)*)/i\<close>.\<close>

definition numericPattern :: re where
  "numericPattern =
     cats [barangay_marker,
           Group 1 (Cat (many1 (Chars is_digit)) (maybe (Chars (\<lambda>c. is_lower c \<or> is_upper c)))),
           many (Chars is_space), maybe (lit CHR '',''), many (Chars is_space),
           Group 2 (Cat (many1 (Chars (\<lambda>c. is_lower c \<or> is_upper c)))
                        (many (Cat (many1 (Chars is_space))
                                   (many1 (Chars (\<lambda>c. is_lower c \<or> is_upper c))))))]"

text \<open>
  \<open>/\b(?:brgy\.?|barangay|brg\.?)\s+([a-z0-9\s]+?)(?:\b|,|\s+(?:north|south|east|west))/i\<close>,
  \<open>/\b(?:brgy\.?|barangay|brg\.?)\s+(\d+[a-z]?)\b/i\<close> and
  \<open>/\b(?:brgy\.?|barangay|brg\.?)\s+(\d+)\b/i\<close>.
\<close>

definition barangay_patterns :: "re list" where
  "barangay_patterns =
     [cats [barangay_marker,
            Group 1 (lazy_many1 (Chars (\<lambda>c. is_lower c \<or> is_upper c \<or> is_digit c \<or> is_space c))),
            ors [Boundary True, lit CHR '','',
                 Cat (many1 (Chars is_space)) (texts_i [''north'', ''south'', ''east'', ''west''])]],
      cats [barangay_marker,
            Group 1 (Cat (many1 (Chars is_digit)) (maybe (Chars (\<lambda>c. is_lower c \<or> is_upper c)))),
            Boundary True],
      cats [barangay_marker, Group 1 (many1 (Chars is_digit)), Boundary True]]"

text \<open>\<open>match[n]\<close> for a group that takes part in every match of its pattern.\<close>

definition group_text :: "nat \<times> captures \<Rightarrow> nat \<Rightarrow> string" where
  "group_text m n = (case map_of (snd m) n of None \<Rightarrow> [] | Some s \<Rightarrow> s)"

text \<open>\<open>split(' ')\<close>, \<open>join(' ')\<close> and
  \<open>word.charAt(0).toUpperCase() + word.slice(1).toLowerCase()\<close>.\<close>

fun split_on :: "char \<Rightarrow> string \<Rightarrow> string list" where
  "split_on sep [] = [[]]"
| "split_on sep (c # cs) =
     (if c = sep then [] # split_on sep cs
      else (case split_on sep cs of [] \<Rightarrow> [[c]] | w # ws \<Rightarrow> (c # w) # ws))"

fun join_with :: "string \<Rightarrow> string list \<Rightarrow> string" where
  "join_with sep [] = []"
| "join_with sep [w] = w"
| "join_with sep (w # ws) = w @ sep @ join_with sep ws"

definition capitalize :: "string \<Rightarrow> string" where
  "capitalize word = toUpperCase (take 1 word) @ toLowerCase (drop 1 word)"

text \<open>The first part of \<open>findBarangayWithValidation\<close>, for a numbered barangay followed by
  a city: the result, if the pattern matches.\<close>

definition numeric_barangay :: "excel_index \<Rightarrow> string \<Rightarrow> enhanced_match option" where
  "numeric_barangay idx text =
     (case re_exec numericPattern text of
        None \<Rightarrow> None
      | Some numericMatch \<Rightarrow>
          if group_text numericMatch 2 = [] then None
          else
            (let barangayNum = group_text numericMatch 1;
                 cityName = trim (group_text numericMatch 2);
                 cityName =
                   (if js_includes (toLowerCase cityName) ''north caloocan'' then ''caloocan''
                    else if js_includes (toLowerCase cityName) ''south caloocan'' then ''caloocan''
                    else if prefix ''north '' (toLowerCase cityName) then drop 6 cityName
                    else if prefix ''south '' (toLowerCase cityName) then drop 6 cityName
                    else cityName)
             in case findInDatabase idx cityName ''city'' of
                  Some cityData \<Rightarrow>
                    Some ((spread_row cityData)
                           \<lparr>em_barangay := Text (''Barangay '' @ barangayNum),
                            em_confidence := Some 0.8,
                            em_validationDetails := Some [''Numeric barangay with city'']\<rparr>)
                | None \<Rightarrow>
                    Some \<lparr>em_name = Missing, em_region = Text ''None'', em_province = Text ''None'',
                          em_city = Text (join_with '' '' (map capitalize (split_on CHR '' '' cityName))),
                          em_barangay = Text (''Barangay '' @ barangayNum),
                          em_barangays = None, em_cities = None, em_confidence = Some 0.6,
                          em_validationDetails = Some [''Numeric barangay pattern'']\<rparr>))"

text \<open>The loop \<open>for (const candidate of candidates)\<close> that looks for a candidate whose city
  stands in the text.\<close>

fun city_in_text :: "string \<Rightarrow> excel_barangay list \<Rightarrow> regexp_error + excel_barangay option" where
  "city_in_text text [] = Inr None"
| "city_in_text text (cand # cands) =
     (case hasWordBoundaryMatch text (xb_city cand) of
        Inl e \<Rightarrow> Inl e
      | Inr found \<Rightarrow> if found then Inr (Some cand) else city_in_text text cands)"

text \<open>The body of the loop over the three patterns: the result that it returns, or
  nothing when the loop goes on.\<close>

definition barangay_candidate ::
  "excel_index \<Rightarrow> string \<Rightarrow> string \<Rightarrow> re \<Rightarrow> regexp_error + enhanced_match option" where
  "barangay_candidate idx text originalText pattern =
     (case re_exec pattern text of
        None \<Rightarrow> Inr None
      | Some m \<Rightarrow>
          (let barangayName = trim (group_text m 1)
           in case validateLocationCandidate barangayName originalText of
                Inl e \<Rightarrow> Inl e
              | Inr validation \<Rightarrow>
                  if \<not> isValid validation then Inr None
                  else
                    (case map_of (excel_barangayIndex idx) (excel_normalize barangayName) of
                       None \<Rightarrow> Inr None
                     | Some candidates \<Rightarrow>
                         if candidates = [] then Inr None
                         else
                           (let confidence =
                                  calculateConfidence originalText OfBarangay True
                                    \<lparr>opt_hashtag = False, opt_ambiguous = (length candidates > 1),
                                     opt_partial = False\<rparr>
                            in if length candidates = 1 then
                                 Inr (Some ((spread_barangay (hd candidates))
                                   \<lparr>em_confidence := Some confidence,
                                    em_validationDetails :=
                                      Some [''Word boundary validated'', ''Context validated'']\<rparr>))
                               else
                                 (case city_in_text text candidates of
                                    Inl e \<Rightarrow> Inl e
                                  | Inr (Some cand) \<Rightarrow>
                                      Inr (Some ((spread_barangay cand)
                                        \<lparr>em_confidence := Some (min (confidence + 0.1) 1.0),
                                         em_validationDetails :=
                                           Some [''Disambiguated by city context'']\<rparr>))
                                  | Inr None \<Rightarrow>
                                      Inr (Some ((spread_barangay (hd candidates))
                                        \<lparr>em_confidence := Some (max (confidence - 0.1) 0.2),
                                         em_validationDetails :=
                                           Some [''Multiple matches, selected first'']\<rparr>)))))))"

fun first_candidate ::
  "excel_index \<Rightarrow> string \<Rightarrow> string \<Rightarrow> re list \<Rightarrow> regexp_error + enhanced_match option" where
  "first_candidate idx text originalText [] = Inr None"
| "first_candidate idx text originalText (pattern # patterns) =
     (case barangay_candidate idx text originalText pattern of
        Inl e \<Rightarrow> Inl e
      | Inr (Some r) \<Rightarrow> Inr (Some r)
      | Inr None \<Rightarrow> first_candidate idx text originalText patterns)"

text \<open>\<open>EnhancedLocationMatcher.findBarangayWithValidation(text, originalText)\<close>.\<close>

definition findBarangayWithValidation ::
  "excel_index \<Rightarrow> string \<Rightarrow> string \<Rightarrow> regexp_error + enhanced_match option" where
  "findBarangayWithValidation idx text originalText =
     (case numeric_barangay idx text of
        Some r \<Rightarrow> Inr (Some r)
      | None \<Rightarrow> first_candidate idx text originalText barangay_patterns)"

subsection \<open>A small index\<close>

definition sample_excel :: excel_index where
  "sample_excel =
     \<lparr>initialized = True,
      excel_provinceIndex =
        [(''CEBU'', \<lparr>xp_name = ''CEBU'', xp_region = Some ''REGION VII'',
                     xp_cities = [''CONSOLACION'', ''LILOAN'']\<rparr>),
         (''NCR'', \<lparr>xp_name = ''NCR'', xp_region = Some ''NCR'', xp_cities = [''CALOOCAN CITY'']\<rparr>)],
      excel_cityIndex =
        [(''CONSOLACION'',
          [\<lparr>xc_name = ''CONSOLACION'', xc_province = Some ''CEBU'', xc_region = Some ''REGION VII'',
            xc_barangays = [''TAYUD'', ''POBLACION'']\<rparr>]),
         (''LILOAN'',
          [\<lparr>xc_name = ''LILOAN'', xc_province = Some ''CEBU'', xc_region = Some ''REGION VII'',
            xc_barangays = [''POBLACION'']\<rparr>]),
         (''CALOOCAN CITY'',
          [\<lparr>xc_name = ''CALOOCAN CITY'', xc_province = Some ''NCR'', xc_region = Some ''NCR'',
            xc_barangays = [''BARANGAY 171'']\<rparr>])],
      excel_barangayIndex =
        [(''TAYUD'',
          [\<lparr>xb_name = ''TAYUD'', xb_city = ''CONSOLACION'', xb_province = Some ''CEBU'',
            xb_region = Some ''REGION VII''\<rparr>]),
         (''POBLACION'',
          [\<lparr>xb_name = ''POBLACION'', xb_city = ''CONSOLACION'', xb_province = Some ''CEBU'',
            xb_region = Some ''REGION VII''\<rparr>,
           \<lparr>xb_name = ''POBLACION'', xb_city = ''LILOAN'', xb_province = Some ''CEBU'',
            xb_region = Some ''REGION VII''\<rparr>]),
         (''BARANGAY 171'',
          [\<lparr>xb_name = ''BARANGAY 171'', xb_city = ''CALOOCAN CITY'', xb_province = Some ''NCR'',
            xb_region = Some ''NCR''\<rparr>])]\<rparr>"



section \<open>Utilities of version 5\<close>

definition createEmptyLocation :: location_match where
  "createEmptyLocation =
     \<lparr>m_region = Str ''None'', m_province = Str ''None'', m_city = Str ''None'',
      m_barangay = Str ''None'', m_regionCode = Undefined\<rparr>"

text \<open>\<open>value || 'None'\<close>.\<close>

fun or_None :: "js_value \<Rightarrow> js_value" where
  "or_None (Str s) = (if s = [] then Str ''None'' else Str s)"
| "or_None Undefined = Str ''None''"

definition normalizeLocationFields :: "location_match option \<Rightarrow> location_match" where
  "normalizeLocationFields location =
     (case location of
        None \<Rightarrow> createEmptyLocation
      | Some l \<Rightarrow>
          \<lparr>m_region = or_None (m_region l), m_province = or_None (m_province l),
           m_city = or_None (m_city l), m_barangay = or_None (m_barangay l),
           m_regionCode = Undefined\<rparr>)"

section \<open>Normalised keys\<close>

text \<open>The shape of a key: lower-case letters, digits and single spaces, with no space at
  either end.\<close>

definition key_chars :: string where
  "key_chars = lower_chars @ digit_chars @ '' ''"

definition key_char :: "char \<Rightarrow> bool" where
  "key_char c = (c \<in> set key_chars)"

definition clean_key :: "string \<Rightarrow> bool" where
  "clean_key k = ((\<forall>c \<in> set k. key_char c) \<and> \<not> sublist ''  '' k
                  \<and> (k \<noteq> [] \<longrightarrow> hd k \<noteq> CHR '' '' \<and> last k \<noteq> CHR '' ''))"

section \<open>Positions of a search\<close>

text \<open>The matcher state at position \<open>k\<close> of a text that follows the character
  \<open>prev\<close>.\<close>

definition pos_state :: "char option \<Rightarrow> string \<Rightarrow> nat \<Rightarrow> rx_state" where
  "pos_state prev s k = (if k = 0 then prev else Some (s ! (k - 1)), drop k s)"

section \<open>Rows of the dataset\<close>





definition index_match :: "location_match \<Rightarrow> bool" where
  "index_match m = ((\<exists>b. m = of_barangay_row b)
          \<or> (\<exists>c. m = of_city_row c \<and> m_barangay m = Str [])
          \<or> (\<exists>p. of_province p = Some m \<and> m_city m = Str [] \<and> m_barangay m = Str []))"

section \<open>Properties\<close>

subsection \<open>Evaluation on the small dataset\<close>

lemma sample_normalize:
  "normalizeKey ''San Isidro'' = ''san isidro''"
  "normalizeKey ''Poblacion'' = ''poblacion''"
  "normalizeKey ''Consolacion'' = ''consolacion''"
  "normalizeKey ''Cebu'' = ''cebu''"
  "normalizeKey ''Tayud'' = ''tayud''"
  "normalizeKey ''San'' = ''san''"
  "normalizeKey ''CONSOLACION'' = ''consolacion''"
  "normalizeKey ''SAN FERNANDO'' = ''san fernando''"
  "normalizeKey ''SAN ISIDRO'' = ''san isidro''"
  by code_simp+

subsection \<open>Candidates of type area in version 2\<close>

text \<open>
  C10. In version 2 a candidate of type \<open>area\<close> never produces a barangay-level match.
  \<open>findBarangay\<close> returns one row, so the test \<open>barangayMatch.length === 1\<close> never holds;
  the match of such a candidate is the city that \<open>findCity\<close> finds, with the score 0.7,
  and a result of the resolver for it has an empty \<open>barangay\<close>.
\<close>

theorem area_candidate_city_only:
  "(\<forall>b :: barangay_row. row_length b \<noteq> Some 1) \<and>
   (candidate_match idx (AreaCand name) =
      (case findCity idx name None of
         None \<Rightarrow> (None, 0)
       | Some c \<Rightarrow> (Some (of_city_row c), 0.7))) \<and>
   (\<forall>m. findBestMatch_v2 idx [AreaCand name] fullText confidence = Some m \<longrightarrow>
        m_barangay m = Str [] \<and> (\<exists>c. findCity idx name None = Some c \<and> m = of_city_row c))"
  by (auto simp: row_length_def findBestMatch_v2_def best_step_v2_def of_city_row_def Let_def
           split: option.splits if_splits)

theorem area_candidate_city_only_witness:
  "findBestMatch_v2 sample_index [AreaCand ''Consolacion''] ''Consolacion area'' 0.5
     = Some (of_city_row (sample_city ''07'' ''REGION VII'' ''CEBU'' ''CONSOLACION''
                            [''POBLACION'', ''TAYUD'']))
   \<and> m_barangay (of_city_row (sample_city ''07'' ''REGION VII'' ''CEBU'' ''CONSOLACION''
                                [''POBLACION'', ''TAYUD''])) = Str []"
proof -
  let ?c = "sample_city ''07'' ''REGION VII'' ''CEBU'' ''CONSOLACION'' [''POBLACION'', ''TAYUD'']"
  have fc: "findCity sample_index ''Consolacion'' None = Some ?c"
    by (simp add: findCity_def sample_normalize sample_index_def js_get_def Let_def)
  have "candidate_match sample_index (AreaCand ''Consolacion'') =
          (case findCity sample_index ''Consolacion'' None of
             None \<Rightarrow> (None, 0) | Some c \<Rightarrow> (Some (of_city_row c), 0.7))"
    using area_candidate_city_only[of sample_index "''Consolacion''"] by blast
  then have cm: "candidate_match sample_index (AreaCand ''Consolacion'') = (Some (of_city_row ?c), 0.7)"
    unfolding fc by simp
  have "findBestMatch_v2 sample_index [AreaCand ''Consolacion''] ''Consolacion area'' 0.5
          = Some (of_city_row ?c)"
    unfolding findBestMatch_v2_def best_step_v2_def Let_def foldl.simps cm minConfidence_def
    by simp
  moreover have "m_barangay (of_city_row ?c) = Str []"
    by (simp add: of_city_row_def)
  ultimately show ?thesis by simp
qed

subsection \<open>The city anchor of extractContexts\<close>

lemma city_context_never_sets:
  "city_context idx cands ctx = Inr ctx"
  by (induction cands) (auto simp: row_length_def split: option.splits)

lemma province_context_keeps_city:
  "ctx_city (province_context idx cands ctx) = ctx_city ctx"
  by (induction cands) (auto split: js_prop.splits)

lemma extractContexts_city_always_null:
  "\<exists>ctx. extractContexts idx candidates text = Inr ctx \<and> ctx_city ctx = None"
  by (simp add: extractContexts_def city_context_never_sets province_context_keeps_city)

text \<open>
  C8. The claim is that a candidate which the city index resolves becomes the city
  context. \<open>extractContexts\<close> tests \<open>cityMatch.length === 1\<close> on the row that \<open>findCity\<close>
  returns, so the city context stays \<open>null\<close> for every list of candidates
  (\<open>extractContexts_city_always_null\<close>). Here the candidate \<open>Consolacion\<close> is resolved by
  the city index of the small dataset, and the contexts hold no city.
\<close>

theorem extractContexts_misses_city:
  "findCity sample_index ''Consolacion'' None \<noteq> None \<and>
   extractContexts sample_index [''Consolacion'', ''Poblacion''] ''Poblacion, Consolacion''
     = Inr \<lparr>ctx_city = None, ctx_province = None\<rparr>"
  by (simp add: extractContexts_def city_context_never_sets findProvince_def findCity_def
       sample_normalize sample_index_def js_get_def Let_def)

subsection \<open>findCity on an ambiguous name\<close>

lemma js_includes_sublist: "js_includes t s \<longleftrightarrow> sublist s t"
  by (induction t) (auto simp: sublist_Cons_right)

text \<open>
  C2, as the code has it. When the normalised name is a key of the city table with two or
  more rows, no province hint is given and the priority table selects none of the rows,
  \<open>findCity\<close> returns the first row of the entry (the one inserted first), not \<open>null\<close>.
\<close>

theorem findCity_ambiguous_first:
  assumes "js_get (cityIndex idx) (normalizeKey cityName) = Own matches"
    and "2 \<le> length matches"
    and "priority_match (normalizeKey cityName) matches = None"
  shows "findCity idx cityName None = Some (hd matches)"
  using assms by (auto simp: findCity_def Let_def)

theorem findCity_ambiguous_first_witness:
  "js_get (cityIndex sample_index) (normalizeKey ''San Isidro'')
      = Own [sample_city ''07'' ''REGION VII'' ''BOHOL'' ''SAN ISIDRO'' [''POBLACION''],
             sample_city ''08'' ''REGION VIII'' ''LEYTE'' ''SAN ISIDRO'' [''CROSSING'']]
   \<and> priority_match (normalizeKey ''San Isidro'')
        [sample_city ''07'' ''REGION VII'' ''BOHOL'' ''SAN ISIDRO'' [''POBLACION''],
         sample_city ''08'' ''REGION VIII'' ''LEYTE'' ''SAN ISIDRO'' [''CROSSING'']] = None
   \<and> findCity sample_index ''San Isidro'' None
      = Some (sample_city ''07'' ''REGION VII'' ''BOHOL'' ''SAN ISIDRO'' [''POBLACION''])"
proof -
  let ?ms = "[sample_city ''07'' ''REGION VII'' ''BOHOL'' ''SAN ISIDRO'' [''POBLACION''],
              sample_city ''08'' ''REGION VIII'' ''LEYTE'' ''SAN ISIDRO'' [''CROSSING'']]"
  have a: "js_get (cityIndex sample_index) (normalizeKey ''San Isidro'') = Own ?ms"
    by (simp add: sample_normalize sample_index_def js_get_def)
  have b: "2 \<le> length ?ms" by simp
  have c: "priority_match (normalizeKey ''San Isidro'') ?ms = None"
    by (simp add: sample_normalize priority_match_def priorityCities_def js_get_def)
  show ?thesis using findCity_ambiguous_first[OF a b c] a c by simp
qed

text \<open>
  C2 as stated fails: San Isidro is a municipality of Bohol and of Leyte, the name is not
  in the priority table, and the lookup without a hint returns the row of Bohol.
\<close>

theorem findCity_ambiguous_not_null:
  "js_get (cityIndex sample_index) (normalizeKey ''San Isidro'')
      = Own [sample_city ''07'' ''REGION VII'' ''BOHOL'' ''SAN ISIDRO'' [''POBLACION''],
             sample_city ''08'' ''REGION VIII'' ''LEYTE'' ''SAN ISIDRO'' [''CROSSING'']]
   \<and> js_get priorityCities (normalizeKey ''San Isidro'') = Absent
   \<and> findCity sample_index ''San Isidro'' None
      = Some (sample_city ''07'' ''REGION VII'' ''BOHOL'' ''SAN ISIDRO'' [''POBLACION''])
   \<and> findCity sample_index ''San Isidro'' None \<noteq> None"
  by (simp add: sample_normalize sample_index_def js_get_def priorityCities_def findCity_def
        priority_match_def Let_def)

subsection \<open>findBarangay\<close>

lemma city_hint_match_sublist:
  "city_hint_match k = (\<lambda>m. normalizeKey (city m) = k
                           \<or> sublist k (normalizeKey (city m))
                           \<or> sublist (normalizeKey (city m)) k)"
  by (rule ext) (simp add: city_hint_match_def js_includes_sublist)

lemma province_hint_match_sublist:
  "province_hint_match k = (\<lambda>m. normalizeKey (province m) = k
                           \<or> sublist k (normalizeKey (province m)))"
  by (rule ext) (simp add: province_hint_match_def js_includes_sublist)

text \<open>
  C3, as the code has it. \<open>findBarangay\<close> normalises the name and reads the barangay
  table. An entry with one row gives that row. With several rows and a city hint, it
  gives the first row whose normalised city equals the normalised hint, contains it or is
  contained in it; when there is no such row (or no city hint) and a province hint is
  given, the first row whose normalised province equals the normalised hint or contains
  it; otherwise \<open>null\<close>.
\<close>

theorem findBarangay_lookup:
  assumes "js_get (barangayIndex idx) (normalizeKey name) = Own matches"
  shows "findBarangay idx name cityHint provinceHint =
     (let byCity = find (\<lambda>m. normalizeKey (city m) = normalizeKey (the cityHint)
                           \<or> sublist (normalizeKey (the cityHint)) (normalizeKey (city m))
                           \<or> sublist (normalizeKey (city m)) (normalizeKey (the cityHint))) matches;
          byProvince = find (\<lambda>m. normalizeKey (province m) = normalizeKey (the provinceHint)
                           \<or> sublist (normalizeKey (the provinceHint)) (normalizeKey (province m)))
                         matches
      in if matches = [] then None
         else if length matches = 1 then Some (hd matches)
         else if js_truthy cityHint \<and> byCity \<noteq> None then byCity
         else if js_truthy provinceHint then byProvince
         else None)"
proof -
  have "findBarangay idx name cityHint provinceHint =
     (let byCity = find (city_hint_match (normalizeKey (the cityHint))) matches;
          byProvince = find (province_hint_match (normalizeKey (the provinceHint))) matches
      in if matches = [] then None
         else if length matches = 1 then Some (hd matches)
         else if js_truthy cityHint \<and> byCity \<noteq> None then byCity
         else if js_truthy provinceHint then byProvince
         else None)"
    using assms by (auto simp: findBarangay_def Let_def split: option.splits)
  then show ?thesis
    unfolding city_hint_match_sublist province_hint_match_sublist .
qed

lemma sample_poblacion:
  "js_get (barangayIndex sample_index) (normalizeKey ''Poblacion'')
     = Own [sample_barangay ''07'' ''REGION VII'' ''CEBU'' ''CONSOLACION'' ''POBLACION'',
            sample_barangay ''07'' ''REGION VII'' ''CEBU'' ''SAN FERNANDO'' ''POBLACION'',
            sample_barangay ''07'' ''REGION VII'' ''BOHOL'' ''SAN ISIDRO'' ''POBLACION'']"
  by (simp add: sample_normalize sample_index_def js_get_def)

theorem findBarangay_lookup_witness:
  "findBarangay sample_index ''Poblacion'' (Some ''San Isidro'') None
     = Some (sample_barangay ''07'' ''REGION VII'' ''BOHOL'' ''SAN ISIDRO'' ''POBLACION'')"
  using findBarangay_lookup[OF sample_poblacion, of "Some ''San Isidro''" None]
  by (simp add: sample_normalize sample_barangay_def js_includes_sublist[symmetric])

text \<open>
  C3 as stated fails: the barangay Poblacion has three rows, the hint \<open>San\<close> has the key
  \<open>san\<close>, which is the city key of none of them, and the lookup returns the row of San
  Fernando, whose city key contains the hint.
\<close>

theorem findBarangay_hint_not_equal:
  "normalizeKey ''CONSOLACION'' \<noteq> normalizeKey ''San''
   \<and> normalizeKey ''SAN FERNANDO'' \<noteq> normalizeKey ''San''
   \<and> normalizeKey ''SAN ISIDRO'' \<noteq> normalizeKey ''San''
   \<and> findBarangay sample_index ''Poblacion'' (Some ''San'') None
      = Some (sample_barangay ''07'' ''REGION VII'' ''CEBU'' ''SAN FERNANDO'' ''POBLACION'')"
  by (simp add: sample_normalize sample_index_def js_get_def findBarangay_def Let_def
       city_hint_match_def sample_barangay_def)

subsection \<open>The match scorer\<close>





subsection \<open>normalizeKey on its own results\<close>

lemma key_chars_props:
  "\<forall>c \<in> set key_chars. toLowerChar c = c \<and> (is_space c \<longleftrightarrow> c = CHR '' '') \<and> c \<noteq> CHR ''(''
       \<and> (is_lower c \<or> is_digit c \<or> is_space c)"
  by code_simp

lemma key_char_lower: "key_char c \<Longrightarrow> toLowerChar c = c"
  using key_chars_props unfolding key_char_def by blast

lemma key_char_space: "key_char c \<Longrightarrow> is_space c \<longleftrightarrow> c = CHR '' ''"
  using key_chars_props unfolding key_char_def by blast

lemma key_char_keep: "key_char c \<Longrightarrow> is_lower c \<or> is_digit c \<or> is_space c"
  using key_chars_props unfolding key_char_def by blast

lemma key_char_not_paren: "key_char c \<Longrightarrow> c \<noteq> CHR ''(''"
  using key_chars_props unfolding key_char_def by blast

lemma toLowerCase_key: "\<forall>c \<in> set k. key_char c \<Longrightarrow> toLowerCase k = k"
  by (induction k) (auto simp: toLowerCase_def key_char_lower)

lemma paren_note_none:
  assumes "CHR ''('' \<notin> set s"
  shows "paren_note s = None"
proof (cases "dropWhile is_space s")
  case Nil
  show ?thesis unfolding paren_note_def Nil by simp
next
  case (Cons c cs)
  have "c \<in> set (dropWhile is_space s)" using Cons by simp
  then have "c \<in> set s" by (rule set_dropWhileD)
  then have "c \<noteq> CHR ''(''" using assms by auto
  then show ?thesis using Cons by (simp add: paren_note_def)
qed

lemma strip_parens_id: "CHR ''('' \<notin> set s \<Longrightarrow> strip_parens s = s"
proof (induction s rule: strip_parens.induct)
  case 1
  then show ?case by simp
next
  case (2 c cs)
  have n: "paren_note (c # cs) = None" using "2.prems" by (rule paren_note_none)
  have "CHR ''('' \<notin> set cs" using "2.prems" by simp
  then have "strip_parens cs = cs" using "2.IH"(1)[OF n] by simp
  then show ?case using n by simp
qed

lemma key_no_paren: "\<forall>c \<in> set k. key_char c \<Longrightarrow> CHR ''('' \<notin> set k"
  using key_char_not_paren by blast

lemma special_to_space_id:
  assumes "\<forall>c \<in> set k. key_char c"
  shows "special_to_space k = k"
proof -
  have "(if is_lower c \<or> is_digit c \<or> is_space c then c else CHR '' '') = c"
    if "c \<in> set k" for c
  proof -
    have "is_lower c \<or> is_digit c \<or> is_space c" using assms that key_char_keep by blast
    then show ?thesis by (simp only: if_True)
  qed
  then show ?thesis unfolding special_to_space_def by (simp only: map_idI)
qed

lemma collapse_id:
  "\<forall>c \<in> set k. key_char c \<Longrightarrow> \<not> sublist ''  '' k \<Longrightarrow> collapse_spaces k = k"
proof (induction k rule: collapse_spaces.induct)
  case 1
  then show ?case by simp
next
  case (2 c cs)
  have kc: "\<forall>c \<in> set cs. key_char c" using "2.prems"(1) by simp
  have ns: "\<not> sublist ''  '' cs" using "2.prems"(2) by (auto simp: sublist_Cons_right)
  show ?case
  proof (cases "is_space c")
    case True
    then have c: "c = CHR '' ''" using "2.prems"(1) key_char_space by auto
    have nd: "dropWhile is_space cs = cs"
    proof (cases cs)
      case Nil then show ?thesis by simp
    next
      case (Cons d ds)
      have "d \<noteq> CHR '' ''" using "2.prems"(2) c Cons by (auto simp: sublist_Cons_right)
      then have "\<not> is_space d" using kc Cons key_char_space by auto
      then show ?thesis using Cons by simp
    qed
    have "collapse_spaces (dropWhile is_space cs) = dropWhile is_space cs"
      using "2.IH"(1)[OF True] kc ns unfolding nd by simp
    then show ?thesis using True c nd by simp
  next
    case False
    have "collapse_spaces cs = cs" using "2.IH"(2)[OF False] kc ns by simp
    then show ?thesis using False by simp
  qed
qed

lemma trim_id:
  assumes "\<forall>c \<in> set k. key_char c" "k \<noteq> [] \<longrightarrow> hd k \<noteq> CHR '' '' \<and> last k \<noteq> CHR '' ''"
  shows "trim k = k"
proof (cases k)
  case Nil then show ?thesis by (simp add: trim_def)
next
  case (Cons c cs)
  have h: "\<not> is_space (hd k)" using assms Cons key_char_space by auto
  have l: "\<not> is_space (last k)" using assms Cons key_char_space[of "last k"] by auto
  have 1: "dropWhile is_space k = k" using h Cons by simp
  have "k = butlast k @ [last k]" using Cons by simp
  then have rk: "rev k = last k # rev (butlast k)" by (metis rev.simps(2) rev_swap)
  have 2: "dropWhile is_space (rev k) = rev k" unfolding rk using l by simp
  show ?thesis by (simp add: trim_def 1 2)
qed

lemma strip_city_id:
  assumes "\<forall>c \<in> set k. key_char c" "\<not> suffix '' city'' k"
  shows "strip_city_suffix k = k"
proof -
  have lk: "toLowerCase k = k" using assms(1) by (rule toLowerCase_key)
  { assume s: "suffix ''city'' k" and len: "length k > 4" and sp: "is_space (k ! (length k - 5))"
    from s obtain p where p: "k = p @ ''city''" by (auto simp: suffix_def)
    with len have pn: "p \<noteq> []" by auto
    have "k ! (length k - 5) = last p" using p pn by (simp add: nth_append last_conv_nth)
    moreover have "last p \<in> set k" using p pn by auto
    ultimately have "last p = CHR '' ''" using sp assms(1) key_char_space by auto
    then have "k = butlast p @ '' city''" using p pn
      by (metis append.assoc append_Cons append_Nil append_butlast_last_id)
    then have "suffix '' city'' k" by (metis suffixI)
    with assms(2) have False by simp }
  then show ?thesis by (auto simp: strip_city_suffix_def lk)
qed

lemma normalizeKey_fixed:
  assumes "clean_key k" "\<not> prefix ''brgy'' k" "\<not> prefix ''barangay'' k" "\<not> suffix '' city'' k"
  shows "normalizeKey k = k"
proof (cases "k = []")
  case True then show ?thesis by (simp add: normalizeKey_def)
next
  case False
  have kc: "\<forall>c \<in> set k. key_char c" using assms(1) by (simp add: clean_key_def)
  have lk: "toLowerCase k = k" using kc by (rule toLowerCase_key)
  have 1: "strip_parens k = k" using kc by (simp add: strip_parens_id key_no_paren)
  have 2: "strip_brgy k = k" using assms(2) by (simp add: strip_brgy_def lk)
  have 3: "strip_barangay k = k" using assms(3) by (simp add: strip_barangay_def lk)
  have 4: "strip_city_suffix k = k" using kc assms(4) by (rule strip_city_id)
  have 5: "special_to_space k = k" using kc by (rule special_to_space_id)
  have 6: "collapse_spaces k = k" using kc assms(1) by (simp add: collapse_id clean_key_def)
  have 7: "trim k = k" using kc assms(1) by (intro trim_id) (auto simp: clean_key_def)
  show ?thesis using False by (simp add: normalizeKey_def lk 1 2 3 4 5 6 7)
qed


lemma key_charI: "is_lower c \<or> is_digit c \<or> c = CHR '' '' \<Longrightarrow> key_char c"
  by (auto simp: key_char_def key_chars_def is_lower_def is_digit_def)

lemma space_is_space: "is_space CHR '' ''"
  by (simp add: is_space_def)

lemma collapse_chars:
  "c \<in> set (collapse_spaces u) \<Longrightarrow> c = CHR '' '' \<or> (c \<in> set u \<and> \<not> is_space c)"
proof (induction u rule: collapse_spaces.induct)
  case 1
  then show ?case by simp
next
  case (2 d ds)
  show ?case
  proof (cases "is_space d")
    case True
    then have "c = CHR '' '' \<or> c \<in> set (collapse_spaces (dropWhile is_space ds))"
      using "2.prems" by simp
    then show ?thesis
    proof
      assume "c = CHR '' ''" then show ?thesis by simp
    next
      assume "c \<in> set (collapse_spaces (dropWhile is_space ds))"
      then have "c = CHR '' '' \<or> (c \<in> set (dropWhile is_space ds) \<and> \<not> is_space c)"
        using "2.IH"(1)[OF True] by simp
      then show ?thesis using set_dropWhileD by fastforce
    qed
  next
    case False
    then have "c = d \<or> c \<in> set (collapse_spaces ds)" using "2.prems" by simp
    then show ?thesis using "2.IH"(2)[OF False] False by auto
  qed
qed

lemma collapse_head:
  "\<not> prefix ''  '' (CHR '' '' # collapse_spaces (dropWhile is_space ds))"
proof (cases "dropWhile is_space ds")
  case Nil
  show ?thesis unfolding Nil by simp
next
  case (Cons e es)
  have "\<not> is_space e" using hd_dropWhile[of is_space ds] Cons by simp
  then have "e \<noteq> CHR '' ''" using space_is_space by auto
  then show ?thesis unfolding Cons using \<open>\<not> is_space e\<close> by simp
qed

lemma collapse_no_double: "\<not> sublist ''  '' (collapse_spaces u)"
proof (induction u rule: collapse_spaces.induct)
  case 1
  then show ?case by simp
next
  case (2 d ds)
  show ?case
  proof (cases "is_space d")
    case True
    then show ?thesis using "2.IH"(1)[OF True] collapse_head[of ds]
      by (simp add: sublist_Cons_right)
  next
    case False
    then have "d \<noteq> CHR '' ''" using space_is_space by auto
    then show ?thesis using "2.IH"(2)[OF False] False
      by (simp add: sublist_Cons_right)
  qed
qed

lemma trim_sublist: "sublist (trim t) t"
proof -
  let ?u = "dropWhile is_space t"
  have "rev (dropWhile is_space (rev ?u)) @ rev (takeWhile is_space (rev ?u)) = ?u"
    by (metis rev_append rev_rev_ident takeWhile_dropWhile_id)
  then have "prefix (trim t) ?u" unfolding trim_def by (metis prefixI)
  moreover have "suffix ?u t" by (rule suffix_dropWhile)
  ultimately show ?thesis using sublist_altdef' by blast
qed

lemma trim_ends:
  assumes "trim t \<noteq> []"
  shows "\<not> is_space (hd (trim t)) \<and> \<not> is_space (last (trim t))"
proof -
  let ?u = "dropWhile is_space t"
  let ?v = "dropWhile is_space (rev ?u)"
  have v: "?v \<noteq> []" using assms by (simp add: trim_def)
  have tv: "trim t = rev ?v" by (simp add: trim_def)
  have l: "\<not> is_space (last (trim t))"
    using hd_dropWhile[OF v] v unfolding tv by (simp add: last_rev)
  have "rev ?v @ rev (takeWhile is_space (rev ?u)) = ?u"
    by (metis rev_append rev_rev_ident takeWhile_dropWhile_id)
  then have "hd ?u = hd (rev ?v)" using v by (metis hd_append2 rev_is_Nil_conv)
  moreover have "?u \<noteq> []"
  proof
    assume "?u = []"
    then have "?v = []" by (simp only: rev.simps dropWhile.simps)
    with v show False by simp
  qed
  ultimately have "\<not> is_space (hd (trim t))" using hd_dropWhile[of is_space t] tv by simp
  then show ?thesis using l by simp
qed

lemma normalizeKey_clean: "clean_key (normalizeKey s)"
proof (cases "s = []")
  case True
  then show ?thesis by (simp add: normalizeKey_def clean_key_def)
next
  case False
  define u where "u = special_to_space (strip_city_suffix (strip_barangay (strip_brgy
             (strip_parens (toLowerCase s)))))"
  have nk: "normalizeKey s = trim (collapse_spaces u)"
    using False by (simp add: normalizeKey_def u_def)
  have uc: "is_lower c \<or> is_digit c \<or> is_space c" if "c \<in> set u" for c
    using that unfolding u_def special_to_space_def by (auto simp: space_is_space)
  have cc: "key_char c" if "c \<in> set (collapse_spaces u)" for c
    using collapse_chars[OF that] uc by (auto intro: key_charI)
  have sub: "sublist (normalizeKey s) (collapse_spaces u)" unfolding nk by (rule trim_sublist)
  have 1: "\<forall>c \<in> set (normalizeKey s). key_char c"
    using sub cc by (meson set_mono_sublist subsetD)
  have 2: "\<not> sublist ''  '' (normalizeKey s)"
    using sub collapse_no_double[of u] by (meson sublist_order.order_trans)
  have 3: "normalizeKey s \<noteq> [] \<longrightarrow> hd (normalizeKey s) \<noteq> CHR '' '' \<and> last (normalizeKey s) \<noteq> CHR '' ''"
    using trim_ends[of "collapse_spaces u"] space_is_space unfolding nk by auto
  show ?thesis unfolding clean_key_def using 1 2 3 by blast
qed


lemma length_trim: "length (trim s) \<le> length s"
proof -
  have "length (trim s) \<le> length (dropWhile is_space s)"
    unfolding trim_def using length_dropWhile_le[of is_space "rev (dropWhile is_space s)"] by simp
  then show ?thesis using length_dropWhile_le[of is_space s] by linarith
qed

lemma length_collapse: "length (collapse_spaces s) \<le> length s"
proof (induction s rule: collapse_spaces.induct)
  case 1
  then show ?case by simp
next
  case (2 c cs)
  show ?case
  proof (cases "is_space c")
    case True
    then show ?thesis using "2.IH"(1)[OF True] length_dropWhile_le[of is_space cs] by simp
  next
    case False
    then show ?thesis using "2.IH"(2)[OF False] by simp
  qed
qed

lemma length_tail: "length (trim (collapse_spaces (special_to_space s))) \<le> length s"
proof -
  have "length (special_to_space s) = length s" by (simp add: special_to_space_def)
  then show ?thesis
    using length_trim[of "collapse_spaces (special_to_space s)"]
      length_collapse[of "special_to_space s"] by linarith
qed

lemma length_strip_city: "length (strip_city_suffix s) \<le> length s"
  using length_dropWhile_le[of is_space "drop 4 (rev s)"] by (auto simp: strip_city_suffix_def)

lemma length_strip_barangay: "length (strip_barangay s) \<le> length s"
  using length_dropWhile_le[of is_space "drop 8 s"] by (auto simp: strip_barangay_def)

lemma strip_brgy_shorter:
  assumes "prefix ''brgy'' (toLowerCase s)"
  shows "length (strip_brgy s) < length s"
proof -
  have len: "4 \<le> length s" using assms prefix_length_le[of "''brgy''" "toLowerCase s"]
    by (simp add: toLowerCase_def)
  define r where "r = drop 4 s"
  define r' where "r' = (case r of [] \<Rightarrow> [] | c # cs \<Rightarrow> if c = CHR ''.'' then cs else c # cs)"
  have "length r' \<le> length r" unfolding r'_def by (cases r) auto
  moreover have "length r < length s" using len unfolding r_def by simp
  moreover have "length (dropWhile is_space r') \<le> length r'" by (rule length_dropWhile_le)
  moreover have "strip_brgy s = dropWhile is_space r'"
    using assms by (simp add: strip_brgy_def r_def r'_def Let_def)
  ultimately show ?thesis by simp
qed

lemma strip_barangay_shorter:
  assumes "prefix ''barangay'' (toLowerCase s)"
  shows "length (strip_barangay s) < length s"
proof -
  have len: "8 \<le> length s" using assms prefix_length_le[of "''barangay''" "toLowerCase s"]
    by (simp add: toLowerCase_def)
  have "length (dropWhile is_space (drop 8 s)) \<le> length (drop 8 s)" by (rule length_dropWhile_le)
  then show ?thesis using assms len by (simp add: strip_barangay_def)
qed

lemma strip_city_shorter:
  assumes "\<forall>c \<in> set k. key_char c" "suffix '' city'' k"
  shows "length (strip_city_suffix k) < length k"
proof -
  have lk: "toLowerCase k = k" using assms(1) by (rule toLowerCase_key)
  from assms(2) obtain p where p: "k = p @ '' city''" by (auto simp: suffix_def)
  have 1: "suffix ''city'' k" unfolding p by (simp add: suffix_def)
  have 2: "length k > 4" unfolding p by simp
  have "k ! (length k - 5) = CHR '' ''" unfolding p by (simp add: nth_append)
  then have 3: "is_space (k ! (length k - 5))" using space_is_space by simp
  have "strip_city_suffix k = rev (dropWhile is_space (drop 4 (rev k)))"
    using 1 2 3 by (simp add: strip_city_suffix_def lk)
  moreover have "length (dropWhile is_space (drop 4 (rev k))) \<le> length (drop 4 (rev k))"
    by (rule length_dropWhile_le)
  ultimately show ?thesis using 2 by simp
qed

lemma normalizeKey_shorter:
  assumes "clean_key k" "prefix ''brgy'' k \<or> prefix ''barangay'' k \<or> suffix '' city'' k"
  shows "length (normalizeKey k) < length k"
proof -
  have kc: "\<forall>c \<in> set k. key_char c" using assms(1) by (simp add: clean_key_def)
  have lk: "toLowerCase k = k" using kc by (rule toLowerCase_key)
  have ne: "k \<noteq> []" using assms(2) by auto
  have sp: "strip_parens k = k" using kc by (simp add: strip_parens_id key_no_paren)
  define a where "a = strip_brgy k"
  define b where "b = strip_barangay a"
  define c where "c = strip_city_suffix b"
  have nk: "normalizeKey k = trim (collapse_spaces (special_to_space c))"
    using ne by (simp add: normalizeKey_def lk sp a_def b_def c_def)
  have t: "length (normalizeKey k) \<le> length c" unfolding nk by (rule length_tail)
  have cb: "length c \<le> length b" unfolding c_def by (rule length_strip_city)
  have ba: "length b \<le> length a" unfolding b_def by (rule length_strip_barangay)
  have ak: "length a \<le> length k"
  proof (cases "prefix ''brgy'' (toLowerCase k)")
    case True
    then show ?thesis using strip_brgy_shorter[OF True] a_def by simp
  next
    case False
    then show ?thesis by (simp add: a_def strip_brgy_def)
  qed
  consider (1) "prefix ''brgy'' k" | (2) "\<not> prefix ''brgy'' k" "prefix ''barangay'' k"
    | (3) "\<not> prefix ''brgy'' k" "\<not> prefix ''barangay'' k" "suffix '' city'' k"
    using assms(2) by blast
  then show ?thesis
  proof cases
    case 1
    then have "length a < length k" using strip_brgy_shorter[of k] lk a_def by simp
    then show ?thesis using t cb ba by linarith
  next
    case 2
    then have "a = k" by (simp add: a_def strip_brgy_def lk)
    then have "length b < length k" using strip_barangay_shorter[of k] 2 lk b_def by simp
    then show ?thesis using t cb by linarith
  next
    case 3
    then have "a = k" by (simp add: a_def strip_brgy_def lk)
    then have "b = k" using 3 by (simp add: b_def strip_barangay_def lk)
    then have "length c < length k" using strip_city_shorter[OF kc 3(3)] c_def by simp
    then show ?thesis using t by linarith
  qed
qed

text \<open>
  C5, as the code has it. \<open>normalizeKey\<close> is a function of its argument alone, and
  normalising a normalised key returns the key exactly when the key does not begin with
  \<open>brgy\<close> or \<open>barangay\<close> and does not end in \<open>city\<close> after a space; a key of
  that kind is shortened by the second pass.
\<close>

theorem normalizeKey_idempotent_iff:
  "normalizeKey (normalizeKey s) = normalizeKey s \<longleftrightarrow>
     \<not> prefix ''brgy'' (normalizeKey s) \<and> \<not> prefix ''barangay'' (normalizeKey s)
     \<and> \<not> suffix '' city'' (normalizeKey s)"
proof
  assume eq: "normalizeKey (normalizeKey s) = normalizeKey s"
  show "\<not> prefix ''brgy'' (normalizeKey s) \<and> \<not> prefix ''barangay'' (normalizeKey s)
     \<and> \<not> suffix '' city'' (normalizeKey s)"
  proof (rule ccontr)
    assume "\<not> ?thesis"
    then have "length (normalizeKey (normalizeKey s)) < length (normalizeKey s)"
      using normalizeKey_shorter[OF normalizeKey_clean[of s]] by blast
    then show False using eq by simp
  qed
next
  assume "\<not> prefix ''brgy'' (normalizeKey s) \<and> \<not> prefix ''barangay'' (normalizeKey s)
     \<and> \<not> suffix '' city'' (normalizeKey s)"
  then show "normalizeKey (normalizeKey s) = normalizeKey s"
    using normalizeKey_fixed[OF normalizeKey_clean[of s]] by blast
qed

theorem normalizeKey_idempotent_iff_witness:
  "normalizeKey ''Cebu City'' = ''cebu''
   \<and> normalizeKey (normalizeKey ''Cebu City'') = normalizeKey ''Cebu City''"
proof -
  have k: "normalizeKey ''Cebu City'' = ''cebu''" by code_simp
  have "\<not> prefix ''brgy'' ''cebu'' \<and> \<not> prefix ''barangay'' ''cebu'' \<and> \<not> suffix '' city'' ''cebu''"
    by (simp add: suffix_to_prefix)
  then show ?thesis using normalizeKey_idempotent_iff[of "''Cebu City''"] k by simp
qed

text \<open>
  C5 as stated fails: \<open>Cebu-City\<close> normalises to \<open>cebu city\<close>, whose suffix is removed
  by a second pass.
\<close>

theorem normalizeKey_not_idempotent:
  "normalizeKey ''Cebu-City'' = ''cebu city''
   \<and> normalizeKey (normalizeKey ''Cebu-City'') = ''cebu''
   \<and> normalizeKey (normalizeKey ''Cebu-City'') \<noteq> normalizeKey ''Cebu-City''"
  by code_simp


subsection \<open>The matcher\<close>

lemma pos_state_0: "pos_state prev s 0 = (prev, s)"
  by (simp add: pos_state_def)

lemma pos_state_Suc: "pos_state prev (c # cs) (Suc k) = pos_state (Some c) cs k"
  by (cases k) (simp_all add: pos_state_def)

lemma rx_run_Eps_fun: "rx_run Eps = (\<lambda>st. [st])"
  by (rule ext) simp

lemma concat_map_single: "concat (map (\<lambda>x. [x]) xs) = xs"
  by (induction xs) simp_all

lemma rx_run_seqs_Cons:
  "rx_run (seqs (r # rs)) st = concat (map (rx_run (seqs rs)) (rx_run r st))"
  by (cases rs) (simp_all add: rx_run_Eps_fun concat_map_single)

lemma rx_run_never: "rx_run (Lit (\<lambda>x. False)) st = []"
  by (cases st, cases "snd st") auto

lemma rx_run_alts_Cons:
  "rx_run (alts (r # rs)) st = rx_run r st @ rx_run (alts rs) st"
  by (cases rs) (simp_all add: rx_run_never)

lemma rx_run_words_i:
  "rx_run (words_i ps) st = concat (map (\<lambda>p. rx_run (str_i p) st) ps)"
proof (induction ps)
  case Nil
  then show ?case by (simp add: words_i_def rx_run_never)
next
  case (Cons p ps)
  have "rx_run (words_i (p # ps)) st = rx_run (str_i p) st @ rx_run (words_i ps) st"
    unfolding words_i_def list.map by (rule rx_run_alts_Cons)
  then show ?case using Cons by simp
qed

lemma rx_run_str_i:
  "rx_run (str_i p) (prev, s) =
     (if prefix (toLowerCase p) (toLowerCase s)
      then [(if p = [] then prev else Some (s ! (length p - 1)), drop (length p) s)]
      else [])"
proof (induction p arbitrary: prev s)
  case Nil
  then show ?case by (simp add: str_i_def toLowerCase_def)
next
  case (Cons c cs)
  have step: "rx_run (str_i (c # cs)) (prev, s) =
      concat (map (rx_run (str_i cs)) (rx_run (chr_i c) (prev, s)))"
    unfolding str_i_def by (simp add: rx_run_seqs_Cons del: seqs.simps)
  show ?case
  proof (cases s)
    case Nil
    then show ?thesis unfolding step by (simp add: chr_i_def toLowerCase_def)
  next
    case (Cons d ds)
    show ?thesis
    proof (cases "toLowerChar d = toLowerChar c")
      case True
      have "rx_run (chr_i c) (prev, s) = [(Some d, ds)]"
        using True Cons by (simp add: chr_i_def)
      then have "rx_run (str_i (c # cs)) (prev, s) = rx_run (str_i cs) (Some d, ds)"
        unfolding step by simp
      then show ?thesis using Cons.IH[of "Some d" ds] True Cons
        by (cases cs) (auto simp: toLowerCase_def)
    next
      case False
      have "rx_run (chr_i c) (prev, s) = []"
        using False Cons by (simp add: chr_i_def)
      then show ?thesis unfolding step using False Cons by (simp add: toLowerCase_def)
    qed
  qed
qed

lemma rx_search_None:
  "rx_search r prev s i = None \<longleftrightarrow> (\<forall>k \<le> length s. rx_run r (pos_state prev s k) = [])"
proof (induction s arbitrary: prev i)
  case Nil
  have "(\<forall>k \<le> length ([] :: string). rx_run r (pos_state prev [] k) = [])
        \<longleftrightarrow> rx_run r (prev, []) = []"
    by (simp add: pos_state_0)
  moreover have "rx_search r prev [] i = None \<longleftrightarrow> rx_run r (prev, []) = []"
    by (cases "rx_run r (prev, [])") simp_all
  ultimately show ?case by blast
next
  case (Cons c cs)
  show ?case
  proof (cases "rx_run r (prev, c # cs) = []")
    case True
    have S: "rx_search r prev (c # cs) i = rx_search r (Some c) cs (Suc i)"
      using True by simp
    have E: "(\<forall>k \<le> length (c # cs). rx_run r (pos_state prev (c # cs) k) = [])
        \<longleftrightarrow> (\<forall>k \<le> length cs. rx_run r (pos_state (Some c) cs k) = [])"
    proof
      assume a: "\<forall>k \<le> length (c # cs). rx_run r (pos_state prev (c # cs) k) = []"
      show "\<forall>k \<le> length cs. rx_run r (pos_state (Some c) cs k) = []"
      proof (intro allI impI)
        fix k assume "k \<le> length cs"
        then have "Suc k \<le> length (c # cs)" by simp
        then have "rx_run r (pos_state prev (c # cs) (Suc k)) = []" using a by blast
        then show "rx_run r (pos_state (Some c) cs k) = []" by (simp only: pos_state_Suc)
      qed
    next
      assume a: "\<forall>k \<le> length cs. rx_run r (pos_state (Some c) cs k) = []"
      show "\<forall>k \<le> length (c # cs). rx_run r (pos_state prev (c # cs) k) = []"
      proof (intro allI impI)
        fix k assume k: "k \<le> length (c # cs)"
        show "rx_run r (pos_state prev (c # cs) k) = []"
        proof (cases k)
          case 0
          then show ?thesis using True by (simp only: pos_state_0)
        next
          case (Suc k')
          then have "k' \<le> length cs" using k by simp
          then have "rx_run r (pos_state (Some c) cs k') = []" using a by blast
          then show ?thesis unfolding Suc by (simp only: pos_state_Suc)
        qed
      qed
    qed
    show ?thesis unfolding S E by (rule Cons.IH)
  next
    case False
    have "rx_run r (pos_state prev (c # cs) 0) \<noteq> []" using False by (simp add: pos_state_0)
    then have A: "\<not> (\<forall>k \<le> length (c # cs). rx_run r (pos_state prev (c # cs) k) = [])" by blast
    obtain st sts where run: "rx_run r (prev, c # cs) = st # sts"
      using False by (cases "rx_run r (prev, c # cs)") auto
    have B: "rx_search r prev (c # cs) i \<noteq> None" by (simp add: run)
    show ?thesis using A B by blast
  qed
qed

lemma rx_test_iff:
  "rx_test r text \<longleftrightarrow> (\<exists>k \<le> length text. rx_run r (pos_state None text k) \<noteq> [])"
  by (simp add: rx_test_def rx_match_def rx_search_None)

lemma rx_search_Some:
  "rx_search r prev s i = Some (j, m) \<Longrightarrow>
     \<exists>k st sts. k \<le> length s \<and> j = i + k \<and> rx_run r (pos_state prev s k) = st # sts
        \<and> m = take (length s - k - length (snd st)) (drop k s)"
proof (induction s arbitrary: prev i)
  case Nil
  then obtain st sts where run: "rx_run r (prev, []) = st # sts" and "j = i" "m = []"
    by (cases "rx_run r (prev, [])") auto
  then have "(0::nat) \<le> length ([]::string) \<and> j = i + 0 \<and> rx_run r (pos_state prev [] 0) = st # sts
        \<and> m = take (length ([]::string) - 0 - length (snd st)) (drop 0 [])"
    by (simp add: pos_state_0)
  then show ?case by blast
next
  case (Cons c cs)
  show ?case
  proof (cases "rx_run r (prev, c # cs) = []")
    case True
    then have "rx_search r (Some c) cs (Suc i) = Some (j, m)" using Cons.prems by simp
    from Cons.IH[OF this] obtain k st sts where
      k: "k \<le> length cs" "j = Suc i + k" "rx_run r (pos_state (Some c) cs k) = st # sts"
         "m = take (length cs - k - length (snd st)) (drop k cs)" by blast
    have "Suc k \<le> length (c # cs) \<and> j = i + Suc k
         \<and> rx_run r (pos_state prev (c # cs) (Suc k)) = st # sts
         \<and> m = take (length (c # cs) - Suc k - length (snd st)) (drop (Suc k) (c # cs))"
      using k by (simp add: pos_state_Suc)
    then show ?thesis by blast
  next
    case False
    then obtain st sts where run: "rx_run r (prev, c # cs) = st # sts"
      by (cases "rx_run r (prev, c # cs)") auto
    then have "j = i" "m = take (length (c # cs) - length (snd st)) (c # cs)"
      using Cons.prems by simp_all
    then have "0 \<le> length (c # cs) \<and> j = i + 0
         \<and> rx_run r (pos_state prev (c # cs) 0) = st # sts
         \<and> m = take (length (c # cs) - 0 - length (snd st)) (drop 0 (c # cs))"
      using run by (simp add: pos_state_0)
    then show ?thesis by blast
  qed
qed

lemma star_iter_suffix:
  assumes "\<And>st st'. st' \<in> set (f st) \<Longrightarrow> suffix (snd st') (snd st)"
  shows "st' \<in> set (star_iter n f st) \<Longrightarrow> suffix (snd st') (snd st)"
proof (induction n arbitrary: st)
  case 0
  then show ?case by simp
next
  case (Suc n)
  from Suc.prems consider "st' = st"
    | mid where "mid \<in> set (f st)" "st' \<in> set (star_iter n f mid)"
    by (auto split: if_splits)
  then show ?case
  proof cases
    case 1 then show ?thesis by simp
  next
    case 2
    then show ?thesis using Suc.IH[of mid] assms[of mid st] suffix_order.order_trans by blast
  qed
qed

lemma lazy_iter_suffix:
  assumes "\<And>st st'. st' \<in> set (f st) \<Longrightarrow> suffix (snd st') (snd st)"
  shows "st' \<in> set (lazy_iter n f st) \<Longrightarrow> suffix (snd st') (snd st)"
proof (induction n arbitrary: st)
  case 0
  then show ?case by simp
next
  case (Suc n)
  from Suc.prems consider "st' = st"
    | mid where "mid \<in> set (f st)" "st' \<in> set (lazy_iter n f mid)"
    by (auto split: if_splits)
  then show ?case
  proof cases
    case 1 then show ?thesis by simp
  next
    case 2
    then show ?thesis using Suc.IH[of mid] assms[of mid st] suffix_order.order_trans by blast
  qed
qed

lemma rx_run_suffix:
  "st' \<in> set (rx_run r st) \<Longrightarrow> suffix (snd st') (snd st)"
proof (induction r arbitrary: st st')
  case (Lit p)
  then show ?case by (cases st, cases "snd st") (auto split: if_splits simp: suffix_ConsI)
next
  case Eps
  then show ?case by simp
next
  case (Seq a b)
  then obtain mid where "mid \<in> set (rx_run a st)" "st' \<in> set (rx_run b mid)" by auto
  then show ?case using Seq.IH suffix_order.order_trans by blast
next
  case (Alt a b)
  from Alt.prems have "st' \<in> set (rx_run a st) \<or> st' \<in> set (rx_run b st)" by simp
  then show ?case using Alt.IH by blast
next
  case (Star a)
  then show ?case using star_iter_suffix[of "rx_run a"] by simp
next
  case (LazyStar a)
  then show ?case using lazy_iter_suffix[of "rx_run a"] by simp
next
  case Bol
  then show ?case by (cases st) (auto split: if_splits)
next
  case Eol
  then show ?case by (cases st) (auto split: if_splits)
next
  case WordB
  then show ?case by (cases st) (auto split: if_splits)
qed

subsection \<open>Words shaped like verbs\<close>

lemma lower_chars_fixed: "\<forall>d \<in> set (lower_chars @ latin1_lower_chars). toLowerChar d = d"
  by code_simp

lemma toLowerChar_idem: "toLowerChar (toLowerChar c) = toLowerChar c"
proof (cases "map_of (zip (upper_chars @ latin1_upper_chars) (lower_chars @ latin1_lower_chars)) c")
  case None
  then show ?thesis by (simp add: toLowerChar_def)
next
  case (Some d)
  then have "(c, d) \<in> set (zip (upper_chars @ latin1_upper_chars) (lower_chars @ latin1_lower_chars))"
    by (rule map_of_SomeD)
  then have "d \<in> set (lower_chars @ latin1_lower_chars)" by (rule set_zip_rightD)
  then have "toLowerChar d = d" using lower_chars_fixed by blast
  moreover have "toLowerChar c = d" using Some by (simp add: toLowerChar_def)
  ultimately show ?thesis by simp
qed

lemma toLowerCase_idem: "toLowerCase (toLowerCase s) = toLowerCase s"
  by (simp add: toLowerCase_def toLowerChar_idem)

lemma toLowerCase_trim: "toLowerCase (trim (toLowerCase w)) = trim (toLowerCase w)"
proof -
  have "set (trim (toLowerCase w)) \<subseteq> set (toLowerCase w)"
    using trim_sublist by (rule set_mono_sublist)
  then have "\<forall>c \<in> set (trim (toLowerCase w)). toLowerChar c = c"
    by (auto simp: toLowerCase_def toLowerChar_idem)
  then show ?thesis unfolding toLowerCase_def[of "trim _"] by (simp add: map_idI)
qed

lemma trim_keeps_prefix:
  assumes "p \<noteq> []" "\<forall>c \<in> set p. \<not> is_space c" "prefix p s"
  shows "prefix p (trim s)"
proof -
  from assms(3) obtain r where s: "s = p @ r" by (auto simp: prefix_def)
  have "\<not> is_space (hd p)" using assms(1,2) by simp
  then have 1: "dropWhile is_space s = s" using assms(1) unfolding s by (cases p) auto
  have lp: "\<not> is_space (last p)" using assms(1,2) by simp
  have rp: "dropWhile is_space (rev p) = rev p" using assms(1) lp by (cases p rule: rev_cases) auto
  show ?thesis
  proof (cases "\<forall>x \<in> set (rev r). is_space x")
    case True
    then have "dropWhile is_space (rev r @ rev p) = dropWhile is_space (rev p)"
      by (intro dropWhile_append2) blast
    then have "dropWhile is_space (rev s) = rev p" unfolding s by (simp add: rp)
    then show ?thesis by (simp add: trim_def 1)
  next
    case False
    then obtain x where "x \<in> set (rev r)" "\<not> is_space x" by blast
    then have "dropWhile is_space (rev r @ rev p) = dropWhile is_space (rev r) @ rev p"
      by (rule dropWhile_append1)
    then have "dropWhile is_space (rev s) = dropWhile is_space (rev r) @ rev p"
      unfolding s by simp
    then show ?thesis by (simp add: trim_def 1)
  qed
qed

lemma trim_keeps_suffix:
  assumes "p \<noteq> []" "\<forall>c \<in> set p. \<not> is_space c" "suffix p s"
  shows "suffix p (trim s)"
proof -
  from assms(3) obtain q where s: "s = q @ p" by (auto simp: suffix_def)
  have hp: "\<not> is_space (hd p)" using assms(1,2) by simp
  have dp: "dropWhile is_space p = p" using assms(1) hp by (cases p) auto
  obtain q' where u: "dropWhile is_space s = q' @ p"
  proof (cases "\<forall>x \<in> set q. is_space x")
    case True
    then have "dropWhile is_space (q @ p) = dropWhile is_space p"
      by (intro dropWhile_append2) blast
    then have "dropWhile is_space s = [] @ p" unfolding s by (simp add: dp)
    then show ?thesis using that by blast
  next
    case False
    then obtain x where "x \<in> set q" "\<not> is_space x" by blast
    then have "dropWhile is_space (q @ p) = dropWhile is_space q @ p"
      by (rule dropWhile_append1)
    then show ?thesis using that unfolding s by blast
  qed
  have lp: "\<not> is_space (last p)" using assms(1,2) by simp
  have "dropWhile is_space (rev p @ rev q') = rev p @ rev q'"
    using assms(1) lp by (cases p rule: rev_cases) auto
  then have "trim s = q' @ p" by (simp add: trim_def u)
  then show ?thesis by (simp add: suffix_def)
qed

lemma words_nonempty:
  "rx_run (words_i ps) (prev, s) \<noteq> [] \<longleftrightarrow>
     (\<exists>p \<in> set ps. prefix (toLowerCase p) (toLowerCase s))"
  by (induction ps) (auto simp: rx_run_words_i rx_run_str_i)

lemma words_results:
  "st' \<in> set (rx_run (words_i ps) (prev, s)) \<Longrightarrow>
     \<exists>p \<in> set ps. prefix (toLowerCase p) (toLowerCase s) \<and> snd st' = drop (length p) s"
  by (induction ps) (auto simp: rx_run_words_i rx_run_str_i split: if_splits)

lemma words_eol_nonempty:
  "rx_run (Seq (words_i ps) Eol) (prev, s) \<noteq> [] \<longleftrightarrow>
     (\<exists>p \<in> set ps. toLowerCase s = toLowerCase p)"
proof
  assume "rx_run (Seq (words_i ps) Eol) (prev, s) \<noteq> []"
  then obtain st' where a: "st' \<in> set (rx_run (words_i ps) (prev, s))" and b: "rx_run Eol st' \<noteq> []"
    by auto
  from b have e: "snd st' = []" by (cases st') (auto split: if_splits)
  from words_results[OF a] obtain p where p: "p \<in> set ps" "prefix (toLowerCase p) (toLowerCase s)"
     "snd st' = drop (length p) s" by blast
  then have "length s \<le> length p" using e by simp
  then have "toLowerCase s = toLowerCase p" using p(2)
    by (metis toLowerCase_def length_map prefix_length_le le_antisym prefix_order.eq_iff
          prefix_def append_eq_append_conv append_Nil2)
  then show "\<exists>p \<in> set ps. toLowerCase s = toLowerCase p" using p(1) by blast
next
  assume "\<exists>p \<in> set ps. toLowerCase s = toLowerCase p"
  then obtain p where p: "p \<in> set ps" "toLowerCase s = toLowerCase p" by blast
  then have len: "length p = length s" by (metis toLowerCase_def length_map)
  have "rx_run (str_i p) (prev, s) = [(if p = [] then prev else Some (s ! (length p - 1)), [])]"
    using p(2) len by (simp add: rx_run_str_i)
  then have "(if p = [] then prev else Some (s ! (length p - 1)), []) \<in> set (rx_run (str_i p) (prev, s))"
    by simp
  then have "(if p = [] then prev else Some (s ! (length p - 1)), []) \<in> set (rx_run (words_i ps) (prev, s))"
    using p(1) unfolding rx_run_words_i by auto
  then show "rx_run (Seq (words_i ps) Eol) (prev, s) \<noteq> []" by force
qed

lemma pos_state_prev: "fst (pos_state None s k) = None \<longleftrightarrow> k = 0"
  by (simp add: pos_state_def)

lemma pos_state_rest: "snd (pos_state prev s k) = drop k s"
  by (simp add: pos_state_def)

lemma bol_run: "rx_run (Seq Bol r) (prev, s) = (if prev = None then rx_run r (None, s) else [])"
  by (cases prev) simp_all

lemma seq_nonempty:
  "rx_run (Seq a b) st \<noteq> [] \<longleftrightarrow> (\<exists>mid \<in> set (rx_run a st). rx_run b mid \<noteq> [])"
  by simp

lemma anchored_test:
  "rx_test (Seq Bol r) s \<longleftrightarrow> rx_run r (None, s) \<noteq> []"
proof -
  have "rx_run (Seq Bol r) (pos_state None s k) \<noteq> [] \<longleftrightarrow> k = 0 \<and> rx_run r (None, s) \<noteq> []" for k
    by (cases k) (simp_all add: pos_state_def bol_run del: rx_run.simps)
  then show ?thesis by (auto simp: rx_test_iff)
qed

lemma prefix_pattern_test:
  "rx_test (Seq Bol (words_i ps)) s \<longleftrightarrow> (\<exists>p \<in> set ps. prefix (toLowerCase p) (toLowerCase s))"
  by (simp add: anchored_test words_nonempty)

lemma toLowerCase_drop: "toLowerCase (drop k s) = drop k (toLowerCase s)"
  by (simp add: toLowerCase_def drop_map)

lemma suffix_pattern_test:
  "rx_test (Seq (words_i ps) Eol) s \<longleftrightarrow> (\<exists>p \<in> set ps. suffix (toLowerCase p) (toLowerCase s))"
proof
  assume "rx_test (Seq (words_i ps) Eol) s"
  then obtain k where "rx_run (Seq (words_i ps) Eol) (pos_state None s k) \<noteq> []"
    by (auto simp: rx_test_iff)
  then have "rx_run (Seq (words_i ps) Eol) (fst (pos_state None s k), drop k s) \<noteq> []"
    by (simp add: pos_state_def)
  then obtain p where "p \<in> set ps" "toLowerCase (drop k s) = toLowerCase p"
    using words_eol_nonempty by blast
  then have "p \<in> set ps \<and> suffix (toLowerCase p) (toLowerCase s)"
    by (metis toLowerCase_drop suffix_drop)
  then show "\<exists>p \<in> set ps. suffix (toLowerCase p) (toLowerCase s)" by blast
next
  assume "\<exists>p \<in> set ps. suffix (toLowerCase p) (toLowerCase s)"
  then obtain p q where p: "p \<in> set ps" "toLowerCase s = q @ toLowerCase p"
    by (auto simp: suffix_def)
  define k where "k = length q"
  have k: "k \<le> length s" using p(2) unfolding k_def
    by (metis toLowerCase_def length_map length_append le_add1)
  have "toLowerCase (drop k s) = toLowerCase p" using p(2) by (simp add: toLowerCase_drop k_def)
  then have "rx_run (Seq (words_i ps) Eol) (fst (pos_state None s k), drop k s) \<noteq> []"
    using p(1) words_eol_nonempty by blast
  then have "rx_run (Seq (words_i ps) Eol) (pos_state None s k) \<noteq> []"
    by (simp add: pos_state_def)
  then show "rx_test (Seq (words_i ps) Eol) s" using k by (auto simp: rx_test_iff)
qed

lemma combined_prefix_test:
  assumes "rx_test (seqs [Bol, words_i ps, r]) s"
  shows "\<exists>p \<in> set ps. prefix (toLowerCase p) (toLowerCase s)"
proof -
  have "rx_run (Seq (words_i ps) r) (None, s) \<noteq> []"
    using assms by (simp add: anchored_test)
  then have "rx_run (words_i ps) (None, s) \<noteq> []" by auto
  then show ?thesis by (simp add: words_nonempty)
qed

lemma circumfix_test:
  assumes "rx_test (seqs [a, b, words_i ps, Eol]) s"
  shows "\<exists>p \<in> set ps. suffix (toLowerCase p) (toLowerCase s)"
proof -
  from assms obtain k where "rx_run (Seq a (Seq b (Seq (words_i ps) Eol))) (pos_state None s k) \<noteq> []"
    by (auto simp: rx_test_iff)
  then obtain st1 where 1: "st1 \<in> set (rx_run a (pos_state None s k))"
      and r1: "rx_run (Seq b (Seq (words_i ps) Eol)) st1 \<noteq> []"
    unfolding seq_nonempty[of a] by blast
  from r1 obtain st2 where 2: "st2 \<in> set (rx_run b st1)"
      and 3: "rx_run (Seq (words_i ps) Eol) st2 \<noteq> []"
    unfolding seq_nonempty[of b] by blast
  have "suffix (snd st2) (snd st1)" using 2 by (rule rx_run_suffix)
  moreover have "suffix (snd st1) (drop k s)" using rx_run_suffix[OF 1] by (simp add: pos_state_rest)
  moreover have "suffix (drop k s) s" by (rule suffix_drop)
  ultimately have suf: "suffix (snd st2) s" using suffix_order.order_trans by blast
  have "rx_run (Seq (words_i ps) Eol) (fst st2, snd st2) \<noteq> []" using 3 by simp
  then obtain p where p: "p \<in> set ps" "toLowerCase (snd st2) = toLowerCase p"
    using words_eol_nonempty by blast
  have "suffix (toLowerCase (snd st2)) (toLowerCase s)"
    using suf unfolding toLowerCase_def by (rule map_mono_suffix)
  then show ?thesis using p by auto
qed

lemma verb_words_chars:
  "\<forall>p \<in> set (verb_prefixes @ verb_suffixes). p \<noteq> [] \<and> toLowerCase p = p \<and> (\<forall>c \<in> set p. \<not> is_space c)"
  by code_simp

lemma verb_pattern_shape:
  assumes "list_ex (\<lambda>pattern. rx_test pattern w) TAGALOG_VERB_PATTERNS"
  shows "(\<exists>p \<in> set verb_prefixes. prefix p (toLowerCase w))
         \<or> (\<exists>p \<in> set verb_suffixes. suffix p (toLowerCase w))"
proof -
  from assms consider
      (1) "rx_test (Seq Bol (words_i verb_prefixes)) w"
    | (2) "rx_test (seqs [Bol, words_i [''nag'', ''mag''], words_i [''ka'', ''pa'', ''si'']]) w"
    | (3) "rx_test (Seq (words_i verb_suffixes) Eol) w"
    | (4) "rx_test (seqs [words_i [''um'', ''in''], LazyStar dot, words_i [''in'', ''an''], Eol]) w"
    by (auto simp: TAGALOG_VERB_PATTERNS_def)
  then show ?thesis
  proof cases
    case 1
    then obtain p where "p \<in> set verb_prefixes" "prefix (toLowerCase p) (toLowerCase w)"
      by (auto simp: prefix_pattern_test)
    then show ?thesis using verb_words_chars by auto
  next
    case 2
    from combined_prefix_test[OF 2] obtain p where
      "p \<in> set [''nag'', ''mag'']" "prefix (toLowerCase p) (toLowerCase w)" by blast
    moreover have "set [''nag'', ''mag''] \<subseteq> set verb_prefixes" by (simp add: verb_prefixes_def)
    ultimately have "p \<in> set verb_prefixes \<and> prefix (toLowerCase p) (toLowerCase w)" by blast
    then show ?thesis using verb_words_chars by auto
  next
    case 3
    then obtain p where "p \<in> set verb_suffixes" "suffix (toLowerCase p) (toLowerCase w)"
      by (auto simp: suffix_pattern_test)
    then show ?thesis using verb_words_chars by auto
  next
    case 4
    from circumfix_test[OF 4] obtain p where
      "p \<in> set [''in'', ''an'']" "suffix (toLowerCase p) (toLowerCase w)" by blast
    moreover have "set [''in'', ''an''] \<subseteq> set verb_suffixes" by (simp add: verb_suffixes_def)
    ultimately have "p \<in> set verb_suffixes \<and> suffix (toLowerCase p) (toLowerCase w)" by blast
    then show ?thesis using verb_words_chars by auto
  qed
qed

text \<open>
  C7. A word that one of the four verb patterns matches is a false positive, whatever the
  full text is: the patterns are tested on the trimmed lower-case word, and a word that
  matches a pattern still matches, after trimming and lower-casing, the prefix pattern or
  the suffix pattern; the test comes before any look at the context.
\<close>

theorem verb_shaped_word_is_false_positive:
  assumes "list_ex (\<lambda>pattern. rx_test pattern w) TAGALOG_VERB_PATTERNS"
  shows "isFalsePositive w t"
proof -
  define n where "n = trim (toLowerCase w)"
  have ln: "toLowerCase n = n" unfolding n_def by (rule toLowerCase_trim)
  from verb_pattern_shape[OF assms] have "list_ex (\<lambda>pattern. rx_test pattern n) TAGALOG_VERB_PATTERNS"
  proof
    assume "\<exists>p \<in> set verb_prefixes. prefix p (toLowerCase w)"
    then obtain p where p: "p \<in> set verb_prefixes" "prefix p (toLowerCase w)" by blast
    then have c: "p \<noteq> [] \<and> toLowerCase p = p \<and> (\<forall>c \<in> set p. \<not> is_space c)"
      using verb_words_chars by auto
    then have "prefix p n" unfolding n_def using p(2) by (intro trim_keeps_prefix) auto
    then have "prefix (toLowerCase p) (toLowerCase n)" using c ln by simp
    then have "rx_test (Seq Bol (words_i verb_prefixes)) n"
      unfolding prefix_pattern_test using p(1) by blast
    then show ?thesis by (simp add: TAGALOG_VERB_PATTERNS_def)
  next
    assume "\<exists>p \<in> set verb_suffixes. suffix p (toLowerCase w)"
    then obtain p where p: "p \<in> set verb_suffixes" "suffix p (toLowerCase w)" by blast
    then have c: "p \<noteq> [] \<and> toLowerCase p = p \<and> (\<forall>c \<in> set p. \<not> is_space c)"
      using verb_words_chars by auto
    then have "suffix p n" unfolding n_def using p(2) by (intro trim_keeps_suffix) auto
    then have "suffix (toLowerCase p) (toLowerCase n)" using c ln by simp
    then have "rx_test (Seq (words_i verb_suffixes) Eol) n"
      unfolding suffix_pattern_test using p(1) by blast
    then show ?thesis by (simp add: TAGALOG_VERB_PATTERNS_def)
  qed
  then show ?thesis by (simp add: isFalsePositive_def Let_def n_def)
qed

theorem verb_shaped_word_is_false_positive_witness:
  "list_ex (\<lambda>pattern. rx_test pattern ''Kumain'') TAGALOG_VERB_PATTERNS
   \<and> isFalsePositive ''Kumain'' ''taga Cebu City ako''"
proof -
  have h: "list_ex (\<lambda>pattern. rx_test pattern ''Kumain'') TAGALOG_VERB_PATTERNS"
    by code_simp
  show ?thesis using verb_shaped_word_is_false_positive[OF h] h by simp
qed

subsection \<open>Word boundaries of a validated candidate\<close>

lemma validate_cebu:
  "validateLocationCandidate ''cebu'' ''sa cebu''
     = Inr \<lparr>isValid = True, reason = None, candidate = Some ''cebu''\<rparr>"
  by code_simp

lemma validate_other_case:
  "validateLocationCandidate ''CEBU'' ''sa cebu''
     = Inr \<lparr>isValid = True, reason = None, candidate = Some ''cebu''\<rparr>"
  by code_simp

lemma validate_inside_word:
  "validateLocationCandidate ''cebu'' ''taga cebuano ako''
     = Inr \<lparr>isValid = False, reason = Some ''Not a complete word'', candidate = None\<rparr>"
  by code_simp

lemma validate_not_a_pattern:
  "validateLocationCandidate ''cebu('' ''taga cebu ako'' = Inl SyntaxError"
  by code_simp

text \<open>
  C6. The candidate is put into the pattern as it is, so a character of the pattern syntax
  in it is read as syntax: the candidate \<open>c.bu\<close> is valid for the text \<open>taga cebu ako\<close>,
  in which it does not occur, in any case of the letters. (\<open>hasWordBoundaryMatch\<close> of the
  enhanced matcher escapes the word before it builds its patterns.)
\<close>

theorem validated_candidate_not_in_text:
  "validateLocationCandidate ''c.bu'' ''taga cebu ako''
     = Inr \<lparr>isValid = True, reason = None, candidate = Some ''cebu''\<rparr>
   \<and> \<not> js_includes (toLowerCase ''taga cebu ako'') (toLowerCase ''c.bu'')"
  by code_simp

subsection \<open>The rows of a built index\<close>

















subsection \<open>Consistency of the results\<close>













lemma foldl_inv:
  "(\<And>a x. x \<in> set xs \<Longrightarrow> I a \<Longrightarrow> I (f a x)) \<Longrightarrow> I a \<Longrightarrow> I (foldl f a xs)"
proof (induction xs arbitrary: a)
  case Nil
  then show ?case by simp
next
  case (Cons x xs)
  have "I (f a x)" using Cons.prems by simp
  moreover have "\<And>b y. y \<in> set xs \<Longrightarrow> I b \<Longrightarrow> I (f b y)" using Cons.prems(1) by (meson list.set_intros(2))
  ultimately show ?case using Cons.IH[of "f a x"] by simp
qed






subsection \<open>Results of the enhanced matcher\<close>










subsection \<open>Fields of a result\<close>

lemma of_province_index_match: "of_province x = Some m \<Longrightarrow> index_match m"
proof -
  assume a: "of_province x = Some m"
  then have "m_city m = Str [] \<and> m_barangay m = Str []" by (cases x) auto
  then show ?thesis using a unfolding index_match_def by blast
qed

lemma of_city_row_index_match: "index_match (of_city_row c)"
  unfolding index_match_def by (metis location_match.select_convs(4) of_city_row_def)

lemma of_barangay_row_index_match: "index_match (of_barangay_row b)"
  unfolding index_match_def by blast

lemma generic_match_shape:
  assumes "generic_match idx name = (Some m, s)"
  shows "index_match m"
proof (cases "of_province (findProvince idx name)")
  case (Some pm)
  then have "m = pm" using assms by (simp add: generic_match_def Let_def)
  then show ?thesis using Some of_province_index_match by blast
next
  case None
  show ?thesis
  proof (cases "findCity idx name None")
    case (Some c)
    then have "m = of_city_row c" using assms None by (simp add: generic_match_def Let_def)
    then show ?thesis using of_city_row_index_match by simp
  next
    case N2: None
    then obtain b where "m = of_barangay_row b"
      using assms None by (auto simp: generic_match_def Let_def split: option.splits if_splits)
    then show ?thesis using of_barangay_row_index_match by simp
  qed
qed

lemma candidate_match_shape:
  assumes "candidate_match idx cand = (Some m, s)"
  shows "index_match m"
proof (cases cand)
  case (BarangayCand name ctx)
  then obtain b where "m = of_barangay_row b" using assms by (auto split: option.splits)
  then show ?thesis using of_barangay_row_index_match by simp
next
  case (CityCand name)
  then show ?thesis using assms generic_match_shape by simp
next
  case (LocationCand name)
  then show ?thesis using assms generic_match_shape by simp
next
  case (AreaCand name)
  then obtain c where "m = of_city_row c"
    using assms by (auto simp: Let_def row_length_def split: option.splits if_splits)
  then show ?thesis using of_city_row_index_match by simp
next
  case (SequenceCand f s t)
  then obtain b where "m = of_barangay_row b" using assms by (auto split: option.splits)
  then show ?thesis using of_barangay_row_index_match by simp
qed

lemma findBestMatch_v2_shape:
  assumes "findBestMatch_v2 idx candidates fullText confidence = Some r"
  shows "index_match r"
proof -
  let ?I = "\<lambda>best :: location_match option \<times> real. \<forall>m. fst best = Some m \<longrightarrow> index_match m"
  have step: "?I (best_step_v2 idx confidence cand best)" if "?I best" for cand best
  proof (cases "candidate_match idx cand")
    case (Pair lm s)
    show ?thesis
    proof (cases lm)
      case None
      then show ?thesis using Pair that by (simp add: best_step_v2_def)
    next
      case (Some x)
      then have "index_match x" using candidate_match_shape Pair by blast
      then show ?thesis using Pair Some that by (simp add: best_step_v2_def)
    qed
  qed
  have "?I (foldl (\<lambda>best cand. best_step_v2 idx confidence cand best) (None, 0) candidates)"
    by (rule foldl_inv[where I = ?I]) (use step in auto)
  then show ?thesis using assms by (auto simp: findBestMatch_v2_def Let_def split: if_splits)
qed

lemma or_None_eq: "or_None v = (if js_true v then v else Str ''None'')"
  by (cases v) auto

text \<open>
  C9, as the code has it. A result of the resolver of version 2 is a row of the barangay
  table, or the record built from a city row, whose \<open>barangay\<close> is the empty string, or
  the record built from a province lookup, whose \<open>city\<close> and \<open>barangay\<close> are the
  empty string; it has no confidence. \<open>normalizeLocationFields\<close> puts the sentinel
  \<open>None\<close> in every level that is empty or undefined and keeps the others.
\<close>

theorem v2_result_fields:
  assumes "findBestMatch_v2 idx candidates fullText confidence = Some m"
  shows "((\<exists>b. m = of_barangay_row b)
          \<or> (\<exists>c. m = of_city_row c \<and> m_barangay m = Str [])
          \<or> (\<exists>p. of_province p = Some m \<and> m_city m = Str [] \<and> m_barangay m = Str []))
       \<and> normalizeLocationFields (Some m) =
           \<lparr>m_region = (if js_true (m_region m) then m_region m else Str ''None''),
            m_province = (if js_true (m_province m) then m_province m else Str ''None''),
            m_city = (if js_true (m_city m) then m_city m else Str ''None''),
            m_barangay = (if js_true (m_barangay m) then m_barangay m else Str ''None''),
            m_regionCode = Undefined\<rparr>"
  using findBestMatch_v2_shape[OF assms]
  by (simp add: index_match_def normalizeLocationFields_def or_None_eq)

lemma sample_location_consolacion:
  "findBestMatch_v2 sample_index [LocationCand ''Consolacion''] ''Consolacion'' 0
     = Some \<lparr>m_region = Str ''REGION VII'', m_province = Str ''CEBU'',
             m_city = Str ''CONSOLACION'', m_barangay = Str [], m_regionCode = Undefined\<rparr>"
  by (simp add: findBestMatch_v2_def best_step_v2_def generic_match_def findBarangay_def
        findCity_def findProvince_def sample_normalize sample_index_def js_get_def Let_def
        of_city_row_def sample_city_def minConfidence_def)

theorem v2_result_fields_witness:
  "findBestMatch_v2 sample_index [LocationCand ''Consolacion''] ''Consolacion'' 0
     = Some \<lparr>m_region = Str ''REGION VII'', m_province = Str ''CEBU'',
             m_city = Str ''CONSOLACION'', m_barangay = Str [], m_regionCode = Undefined\<rparr>
   \<and> normalizeLocationFields
        (Some \<lparr>m_region = Str ''REGION VII'', m_province = Str ''CEBU'',
               m_city = Str ''CONSOLACION'', m_barangay = Str [], m_regionCode = Undefined\<rparr>)
     = \<lparr>m_region = Str ''REGION VII'', m_province = Str ''CEBU'',
        m_city = Str ''CONSOLACION'', m_barangay = Str ''None'', m_regionCode = Undefined\<rparr>"
  using v2_result_fields[OF sample_location_consolacion] sample_location_consolacion by simp

text \<open>
  C9 as stated fails: for the candidate \<open>Consolacion\<close> the result is the city-level
  record, whose absent barangay is the empty string and not \<open>None\<close>; the record has no
  confidence.
\<close>

theorem v2_result_empty_barangay:
  "findBestMatch_v2 sample_index [LocationCand ''Consolacion''] ''Consolacion'' 0
     = Some \<lparr>m_region = Str ''REGION VII'', m_province = Str ''CEBU'',
             m_city = Str ''CONSOLACION'', m_barangay = Str [], m_regionCode = Undefined\<rparr>
   \<and> Str [] \<noteq> Str ''None''"
  by (simp add: findBestMatch_v2_def best_step_v2_def generic_match_def findBarangay_def
        findCity_def findProvince_def sample_normalize sample_index_def js_get_def Let_def
        of_city_row_def sample_city_def minConfidence_def)

subsection \<open>Consistency on the small dataset\<close>




lemma sample_caloocan:
  "findBarangayWithValidation sample_excel ''Brgy. 171, North Caloocan.'' ''Brgy. 171, North Caloocan.''
     = Inr (Some \<lparr>em_name = Text ''CALOOCAN CITY'', em_region = Text ''NCR'',
                   em_province = Text ''NCR'', em_city = Missing,
                   em_barangay = Text ''Barangay 171'', em_barangays = Some [''BARANGAY 171''],
                   em_cities = None, em_confidence = Some 0.8,
                   em_validationDetails = Some [''Numeric barangay with city'']\<rparr>)"
  by code_simp



end
